theory Spec2Isabelle
  imports Main "HOL-Library.Multiset"
begin

section \<open>Strings and the library sanitizers\<close>

text \<open>
  A JavaScript string is a list of characters. The sanitizers below are the ones the
  validation chains of the controllers call: \<open>trim\<close>, \<open>escape\<close> and \<open>toLowerCase\<close> of
  the validation library, on ASCII input. A field that is absent from the request body
  is \<open>None\<close>; the library's standard sanitizers and validators read it through
  \<open>toString\<close>, which turns an absent value into the empty string.
\<close>

abbreviation CR :: char where "CR \<equiv> CHR 0x0D"
abbreviation LF :: char where "LF \<equiv> CHR 0x0A"

definition is_whitespace :: "char \<Rightarrow> bool" where
  "is_whitespace c =
     (c = CHR 0x20 \<or> c = CHR 0x09 \<or> c = LF \<or> c = CHR 0x0B \<or> c = CHR 0x0C \<or> c = CR)"

definition trim :: "string \<Rightarrow> string" where
  "trim s = rev (dropWhile is_whitespace (rev (dropWhile is_whitespace s)))"

definition lower_char :: "char \<Rightarrow> char" where
  "lower_char c =
     (case map_of (zip ''ABCDEFGHIJKLMNOPQRSTUVWXYZ'' ''abcdefghijklmnopqrstuvwxyz'') c of
        None \<Rightarrow> c
      | Some l \<Rightarrow> l)"

definition toLowerCase :: "string \<Rightarrow> string" where
  "toLowerCase s = map lower_char s"

definition escape_char :: "char \<Rightarrow> string" where
  "escape_char c =
     (if c = CHR ''&'' then ''&amp;''
      else if c = CHR 0x22 then ''&quot;''
      else if c = CHR 0x27 then ''&#x27;''
      else if c = CHR ''<'' then ''&lt;''
      else if c = CHR ''>'' then ''&gt;''
      else if c = CHR ''/'' then ''&#x2F;''
      else if c = CHR 0x5C then ''&#x5C;''
      else if c = CHR 0x60 then ''&#96;''
      else [c])"

definition escape :: "string \<Rightarrow> string" where
  "escape s = concat (map escape_char s)"

definition toString :: "string option \<Rightarrow> string" where
  "toString v = (case v of None \<Rightarrow> [] | Some s \<Rightarrow> s)"

text \<open>The nullish coalescing operator \<open>a ?? b\<close>.\<close>

definition nullish :: "'a option \<Rightarrow> 'a \<Rightarrow> 'a" where
  "nullish v d = (case v of None \<Rightarrow> d | Some x \<Rightarrow> x)"

subsection \<open>Paragraph conversion\<close>

text \<open>
  \<open>convertToArrayOfParagraphs\<close> is
  \<^verbatim>\<open>text.replaceAll('\r', '').replaceAll(/\n+/g, '\n').split('\n')\<close>:
  one function per step.
\<close>

definition remove_carriage_returns :: "string \<Rightarrow> string" where
  "remove_carriage_returns s = filter (\<lambda>c. c \<noteq> CR) s"

function collapse_newlines :: "string \<Rightarrow> string" where
  "collapse_newlines [] = []"
| "collapse_newlines (c # cs) =
     (if c = LF then LF # collapse_newlines (dropWhile (\<lambda>x. x = LF) cs)
      else c # collapse_newlines cs)"
  by pat_completeness auto
termination
  by (relation "measure length") (auto simp: le_imp_less_Suc length_dropWhile_le)

fun split_newline :: "string \<Rightarrow> string list" where
  "split_newline [] = [[]]"
| "split_newline (c # cs) =
     (if c = LF then [] # split_newline cs
      else (case split_newline cs of
              [] \<Rightarrow> [[c]]
            | p # ps \<Rightarrow> (c # p) # ps))"

definition convertToArrayOfParagraphs :: "string \<Rightarrow> string list" where
  "convertToArrayOfParagraphs s =
     split_newline (collapse_newlines (remove_carriage_returns s))"

text \<open>A string in which no newline directly follows another.\<close>

fun no_adjacent_newlines :: "string \<Rightarrow> bool" where
  "no_adjacent_newlines (x # y # xs) =
     (\<not> (x = LF \<and> y = LF) \<and> no_adjacent_newlines (y # xs))"
| "no_adjacent_newlines xs = True"

text \<open>
  The spec's words for the second step, "collapse any run of one-or-more newlines into a
  single newline": a newline that is followed by a newline is dropped. It is compared
  with \<open>collapse_newlines\<close> below. \<open>join_newline\<close> is the inverse of the split.
\<close>

fun spec_collapse_newlines :: "string \<Rightarrow> string" where
  "spec_collapse_newlines (x # y # xs) =
     (if x = LF \<and> y = LF then spec_collapse_newlines (y # xs)
      else x # spec_collapse_newlines (y # xs))"
| "spec_collapse_newlines xs = xs"

fun join_newline :: "string list \<Rightarrow> string" where
  "join_newline [] = []"
| "join_newline [p] = p"
| "join_newline (p # q # ps) = p @ LF # join_newline (q # ps)"

subsection \<open>Script-tag removal\<close>

text \<open>
  Modelled from the spec: \<open>removeDangerousScriptTags\<close> is imported by the comments
  controller from the posts controller, whose text does not define it. The spec says it
  strips the substrings that match an HTML \<^verbatim>\<open><script>...</script>\<close> pattern. The
  handlers below take the sanitizer as a parameter; this definition is the instance used
  when a concrete one is needed: each \<^verbatim>\<open><script>\<close> up to the next \<^verbatim>\<open></script>\<close> is
  removed, and an opening tag that is never closed stays.
\<close>

fun after_closing_tag :: "string \<Rightarrow> string option" where
  "after_closing_tag [] = None"
| "after_closing_tag (c # cs) =
     (if take 9 (c # cs) = ''</script>'' then Some (drop 9 (c # cs))
      else after_closing_tag cs)"

function removeDangerousScriptTags :: "string \<Rightarrow> string" where
  "removeDangerousScriptTags [] = []"
| "removeDangerousScriptTags (c # cs) =
     (if take 8 (c # cs) = ''<script>''
      then (case after_closing_tag (drop 8 (c # cs)) of
              None \<Rightarrow> c # removeDangerousScriptTags cs
            | Some rest \<Rightarrow> removeDangerousScriptTags rest)
      else c # removeDangerousScriptTags cs)"
  by pat_completeness auto
termination
proof (relation "measure length")
  show "wf (measure length)" by simp
next
  fix c :: char and cs :: string
  show "(cs, c # cs) \<in> measure length" by simp
next
  fix c :: char and cs rest :: string
  assume "after_closing_tag (drop 8 (c # cs)) = Some rest"
  moreover have "after_closing_tag xs = Some r \<Longrightarrow> length r \<le> length xs" for xs r
    by (induction xs) (auto split: if_splits)
  ultimately have "length rest \<le> length (drop 8 (c # cs))" by blast
  then show "(rest, c # cs) \<in> measure length" by simp
next
  fix c :: char and cs :: string
  show "(cs, c # cs) \<in> measure length" by simp
qed

section \<open>Identifiers\<close>

text \<open>
  An identifier travels as a string. \<open>ObjectId_isValid\<close> is the driver's test
  \<^verbatim>\<open>Types.ObjectId.isValid\<close> on a string: twelve bytes, or twenty-four hexadecimal
  digits. The constructor \<^verbatim>\<open>new Types.ObjectId(s)\<close> throws on every other string and
  generates an identifier when it is given no argument. Identifiers are compared in the
  form the request carries them.
\<close>

type_synonym oid = string

datatype js_error = BSONError | TypeError | CastError

definition is_hex_digit :: "char \<Rightarrow> bool" where
  "is_hex_digit c = (c \<in> set ''0123456789abcdefABCDEF'')"

definition ObjectId_isValid :: "string \<Rightarrow> bool" where
  "ObjectId_isValid s = (length s = 12 \<or> (length s = 24 \<and> list_all is_hex_digit s))"

definition new_ObjectId :: "oid \<Rightarrow> string option \<Rightarrow> js_error + oid" where
  "new_ObjectId generated input =
     (case input of
        None \<Rightarrow> Inr generated
      | Some s \<Rightarrow> if ObjectId_isValid s then Inr s else Inl BSONError)"

section \<open>Documents and the store\<close>

text \<open>
  The three collections. The Post and Comment models are not among the sources: their
  records hold the fields the controllers construct, and \<open>commentCount\<close>, which the
  comment handlers increment. A field that a stored document does not have
  (\<open>category\<close> when the request has none) is \<open>None\<close>. The \<open>commenter\<close> of a comment
  is an identifier in the store and an expanded document in a populated answer, so the
  record is polymorphic in it. The field \<open>_id\<close> is \<open>post_id\<close> and \<open>comment_id\<close>;
  \<open>text\<close> and \<open>timestamp\<close> carry the name of the record where two records have
  them. A date is a number.

  The documents a commenter refers to are kept as they are stored, a list of named
  fields with the identifier under \<open>_id\<close>: the handlers only ever project them.
\<close>

record Post =
  post_id :: oid
  author :: oid
  title :: string
  timestamp :: int
  category :: "string option"
  post_text :: "string list"
  isPublished :: bool
  commentCount :: "int option"

record 'c Comment =
  comment_id :: oid
  commenter :: 'c
  post :: oid
  comment_timestamp :: int
  comment_text :: string
  replies :: "oid list"

type_synonym document = "(string \<times> string) list"

datatype collection = Posts | Comments | Authors

datatype db_op =
    Find collection
  | FindById collection oid
  | Insert collection oid
  | Update collection oid
  | Delete collection oid

record store =
  posts :: "Post list"
  comments :: "oid Comment list"
  authors :: "document list"
  oplog :: "db_op list"

definition record_op :: "db_op \<Rightarrow> store \<Rightarrow> store" where
  "record_op op s = s\<lparr>oplog := oplog s @ [op]\<rparr>"

primrec update_first :: "('a \<Rightarrow> bool) \<Rightarrow> ('a \<Rightarrow> 'a) \<Rightarrow> 'a list \<Rightarrow> 'a list" where
  "update_first P f [] = []"
| "update_first P f (x # xs) = (if P x then f x # xs else x # update_first P f xs)"

primrec delete_first :: "('a \<Rightarrow> bool) \<Rightarrow> 'a list \<Rightarrow> 'a list" where
  "delete_first P [] = []"
| "delete_first P (x # xs) = (if P x then xs else x # delete_first P xs)"

definition count_of :: "Post \<Rightarrow> int" where
  "count_of p = (case commentCount p of None \<Rightarrow> 0 | Some n \<Rightarrow> n)"

text \<open>The update \<^verbatim>\<open>{ $inc: { commentCount: d } }\<close>: a missing field counts as zero.\<close>

definition inc_commentCount :: "int \<Rightarrow> Post \<Rightarrow> Post" where
  "inc_commentCount d p = p\<lparr>commentCount := Some (count_of p + d)\<rparr>"

text \<open>
  Modelled from the spec: the Post schema is not among the sources. The spec says a post
  is constructed with \<open>commentCount\<close> implicitly 0, so the constructor
  \<^verbatim>\<open>new Post({...})\<close>, which no handler hands a \<open>commentCount\<close>, gives a document whose
  \<open>commentCount\<close> is the default 0.
\<close>

definition new_Post ::
  "oid \<Rightarrow> oid \<Rightarrow> string \<Rightarrow> int \<Rightarrow> string option \<Rightarrow> string list \<Rightarrow> bool \<Rightarrow> Post" where
  "new_Post i a t ts c tx p =
     \<lparr>post_id = i,
      author = a,
      title = t,
      timestamp = ts,
      category = c,
      post_text = tx,
      isPublished = p,
      commentCount = Some 0\<rparr>"

text \<open>
  An update that is given a constructed document sets every field the document has, the
  defaults among them; a field the document does not have keeps its stored value.
\<close>

definition set_document :: "Post \<Rightarrow> Post \<Rightarrow> Post" where
  "set_document doc stored =
     doc\<lparr>category := (case category doc of None \<Rightarrow> category stored | Some c \<Rightarrow> Some c),
         commentCount :=
           (case commentCount doc of None \<Rightarrow> commentCount stored | Some n \<Rightarrow> Some n)\<rparr>"

subsection \<open>Operations of the Post model\<close>

text \<open>
  Every operation of the persistence service appends itself to \<open>oplog\<close>. An update
  is a function on the stored document; with \<^verbatim>\<open>{ new: true }\<close> it returns the
  document after the update. An operation the service rejects is outside the model, as
  the spec leaves database errors to the fallback outside the handlers.
\<close>

definition Post_find_sorted :: "store \<Rightarrow> Post list \<times> store" where
  "Post_find_sorted s =
     (sort_key (\<lambda>p. - timestamp p) (posts s), record_op (Find Posts) s)"

definition Post_findById :: "oid \<Rightarrow> store \<Rightarrow> Post option \<times> store" where
  "Post_findById i s =
     (find (\<lambda>p. post_id p = i) (posts s), record_op (FindById Posts i) s)"

definition Post_save :: "Post \<Rightarrow> store \<Rightarrow> Post \<times> store" where
  "Post_save p s = (p, record_op (Insert Posts (post_id p)) (s\<lparr>posts := posts s @ [p]\<rparr>))"

definition Post_findByIdAndUpdate ::
  "oid \<Rightarrow> (Post \<Rightarrow> Post) \<Rightarrow> store \<Rightarrow> Post option \<times> store" where
  "Post_findByIdAndUpdate i f s =
     (map_option f (find (\<lambda>p. post_id p = i) (posts s)),
      record_op (Update Posts i)
        (s\<lparr>posts := update_first (\<lambda>p. post_id p = i) f (posts s)\<rparr>))"

definition Post_findByIdAndDelete :: "oid \<Rightarrow> store \<Rightarrow> Post option \<times> store" where
  "Post_findByIdAndDelete i s =
     (find (\<lambda>p. post_id p = i) (posts s),
      record_op (Delete Posts i)
        (s\<lparr>posts := delete_first (\<lambda>p. post_id p = i) (posts s)\<rparr>))"

subsection \<open>Operations of the Comment model\<close>

record Query =
  query_post :: "string option"
  query_commenter :: "string option"

definition matches :: "Query \<Rightarrow> oid Comment \<Rightarrow> bool" where
  "matches q c =
     ((case query_post q of None \<Rightarrow> True | Some p \<Rightarrow> post c = p) \<and>
      (case query_commenter q of None \<Rightarrow> True | Some r \<Rightarrow> commenter c = r))"

text \<open>
  \<^verbatim>\<open>populate('commenter', 'username -_id')\<close> replaces the reference by the referenced
  document, projected: of the fields other than \<open>_id\<close> only the selected ones stay, and
  \<open>_id\<close> stays unless it is excluded. A reference to no document becomes null.
\<close>

definition select_fields :: "string list \<Rightarrow> bool \<Rightarrow> document \<Rightarrow> document" where
  "select_fields selected exclude_id d =
     filter (\<lambda>kv. if fst kv = ''_id'' then \<not> exclude_id else fst kv \<in> set selected) d"

text \<open>
  Modelled from the spec: the Comment model, which declares what \<open>commenter\<close> refers
  to, is not among the sources. By the spec's data model the reference is the identifier
  of an Author, so the expansion looks the commenter up among the authors; the display
  name the spec speaks of is the field the projection selects, \<open>username\<close>.
\<close>

definition populate_commenter :: "store \<Rightarrow> oid Comment \<Rightarrow> document option Comment" where
  "populate_commenter s c =
     \<lparr>comment_id = comment_id c,
      commenter =
        map_option (select_fields [''username''] True)
          (find (\<lambda>d. map_of d ''_id'' = Some (commenter c)) (authors s)),
      post = post c,
      comment_timestamp = comment_timestamp c,
      comment_text = comment_text c,
      replies = replies c\<rparr>"

text \<open>
  Modelled from the spec: by the spec's data model \<open>post\<close> and \<open>commenter\<close> of a
  comment are identifiers, so a query casts the values of its filter to identifiers and
  throws, before it reaches the collection, when one of them is malformed.
\<close>

definition castable :: "string option \<Rightarrow> bool" where
  "castable v = (case v of None \<Rightarrow> True | Some x \<Rightarrow> ObjectId_isValid x)"

definition Comment_find_populate_sorted ::
  "Query \<Rightarrow> store \<Rightarrow> (js_error + document option Comment list) \<times> store" where
  "Comment_find_populate_sorted q s =
     (if castable (query_post q) \<and> castable (query_commenter q)
      then (Inr (map (populate_commenter s)
                   (sort_key (\<lambda>c. - comment_timestamp c) (filter (matches q) (comments s)))),
            record_op (Find Authors) (record_op (Find Comments) s))
      else (Inl CastError, s))"

definition Comment_populate :: "oid Comment \<Rightarrow> store \<Rightarrow> document option Comment \<times> store" where
  "Comment_populate c s = (populate_commenter s c, record_op (Find Authors) s)"

definition Comment_findById :: "oid \<Rightarrow> store \<Rightarrow> oid Comment option \<times> store" where
  "Comment_findById i s =
     (find (\<lambda>c. comment_id c = i) (comments s), record_op (FindById Comments i) s)"

text \<open>
  \<open>Comment_save\<close> stores the document and resolves to it; it never resolves to a
  missing document. The handler tests the result for a missing document all the same,
  so the result is an optional document here.
\<close>

definition Comment_save :: "oid Comment \<Rightarrow> store \<Rightarrow> oid Comment option \<times> store" where
  "Comment_save c s =
     (Some c, record_op (Insert Comments (comment_id c)) (s\<lparr>comments := comments s @ [c]\<rparr>))"

definition Comment_findByIdAndUpdate ::
  "oid \<Rightarrow> (oid Comment \<Rightarrow> oid Comment) \<Rightarrow> store \<Rightarrow> oid Comment option \<times> store" where
  "Comment_findByIdAndUpdate i f s =
     (map_option f (find (\<lambda>c. comment_id c = i) (comments s)),
      record_op (Update Comments i)
        (s\<lparr>comments := update_first (\<lambda>c. comment_id c = i) f (comments s)\<rparr>))"

definition Comment_findByIdAndDelete :: "oid \<Rightarrow> store \<Rightarrow> oid Comment option \<times> store" where
  "Comment_findByIdAndDelete i s =
     (find (\<lambda>c. comment_id c = i) (comments s),
      record_op (Delete Comments i)
        (s\<lparr>comments := delete_first (\<lambda>c. comment_id c = i) (comments s)\<rparr>))"

section \<open>Responses\<close>

record ErrorMessage =
  message :: string
  status :: nat

definition INVALID_ID :: ErrorMessage where
  "INVALID_ID = \<lparr>message = ''Failed to fetch - invalid ID format'', status = 400\<rparr>"

definition INVALID_QUERY :: ErrorMessage where
  "INVALID_QUERY = \<lparr>message = ''Failed to fetch - invalid query'', status = 400\<rparr>"

definition DOES_NOT_EXIST :: ErrorMessage where
  "DOES_NOT_EXIST = \<lparr>message = ''Failed to fetch - no resource with that ID'', status = 404\<rparr>"

definition DATABASE_UPDATE_ERROR :: string where
  "DATABASE_UPDATE_ERROR = ''Error updating database''"

text \<open>An entry of the error array of the validation result: the field and its message.\<close>

record ValidationError =
  path :: string
  msg :: string

datatype body =
    ErrorBody ErrorMessage
  | MessageBody string
  | ErrorsBody "ValidationError list"
  | PostBody Post
  | PostsBody "Post list"
  | CommentBody "oid Comment"
  | PopulatedCommentBody "document option Comment"
  | CommentsBody "document option Comment list"
  | NullBody

text \<open>
  A handler either sends a response (\<^verbatim>\<open>res.json\<close> alone sends status 200) or throws
  before it has sent one.
\<close>

datatype outcome = Response nat body | Threw js_error

section \<open>Validation chains\<close>

text \<open>
  A chain runs its sanitizers and validators in order on one field of the body; a
  validator that fails adds its message and the chain goes on. An \<^verbatim>\<open>optional()\<close>
  chain does nothing to a field that is absent. Each chain returns the errors it adds
  and the value it leaves in the body.
\<close>

definition field_error :: "string \<Rightarrow> string \<Rightarrow> bool \<Rightarrow> ValidationError list" where
  "field_error p m failed = (if failed then [\<lparr>path = p, msg = m\<rparr>] else [])"

record PostForm =
  form_title :: "string option"
  form_category :: "string option"
  form_text :: "string option"
  form_isPublished :: "string option"

subsection \<open>The chains of postNewPost\<close>

definition postNewPost_title :: "string option \<Rightarrow> ValidationError list \<times> string" where
  "postNewPost_title v =
     (let trimmed = trim (toString v)
      in (field_error ''title'' ''Title must not be empty'' (trimmed = []), escape trimmed))"

definition postNewPost_category ::
  "string list \<Rightarrow> string option \<Rightarrow> ValidationError list \<times> string option" where
  "postNewPost_category categories v =
     (let lowered = map_option toLowerCase v
      in (field_error ''category'' ''Category must be one of the listed options''
            (toString lowered \<notin> set categories),
          lowered))"

definition postNewPost_text :: "string option \<Rightarrow> ValidationError list \<times> string list" where
  "postNewPost_text v =
     (let trimmed = trim (toString v)
      in (field_error ''text'' ''Article cannot be empty'' (trimmed = []),
          convertToArrayOfParagraphs (escape trimmed)))"

definition postNewPost_isPublished :: "string option \<Rightarrow> bool" where
  "postNewPost_isPublished v = (escape (toLowerCase (trim (toString v))) = ''yes'')"

subsection \<open>The chains of editPost\<close>

definition editPost_title :: "string option \<Rightarrow> ValidationError list \<times> string option" where
  "editPost_title v =
     (case v of
        None \<Rightarrow> ([], None)
      | Some x \<Rightarrow>
          (let trimmed = trim x
           in (field_error ''title'' ''Title must not be empty'' (trimmed = []),
               Some (escape trimmed))))"

definition editPost_category ::
  "string list \<Rightarrow> string option \<Rightarrow> ValidationError list \<times> string option" where
  "editPost_category categories v =
     (case map_option toLowerCase v of
        None \<Rightarrow> ([], None)
      | Some lowered \<Rightarrow>
          (field_error ''category'' ''Category must be one of the listed options''
             (lowered \<notin> set categories),
           Some lowered))"

definition editPost_text :: "string option \<Rightarrow> ValidationError list \<times> string list option" where
  "editPost_text v =
     (case v of
        None \<Rightarrow> ([], None)
      | Some x \<Rightarrow>
          (let trimmed = trim x
           in (field_error ''text'' ''Article cannot be empty'' (trimmed = []),
               Some (split_newline (collapse_newlines
                       (remove_carriage_returns (escape trimmed)))))))"

definition editPost_isPublished :: "string option \<Rightarrow> bool option" where
  "editPost_isPublished v = map_option (\<lambda>x. escape (toLowerCase (trim x)) = ''yes'') v"

subsection \<open>The chains of postNewComment and editComment\<close>

definition postNewComment_text ::
  "(string \<Rightarrow> string) \<Rightarrow> string option \<Rightarrow> ValidationError list \<times> string" where
  "postNewComment_text sanitizer v =
     (let trimmed = trim (toString v)
      in (field_error ''text'' ''Comment cannot be empty'' (trimmed = []),
          sanitizer (escape trimmed)))"

definition editComment_text ::
  "(string \<Rightarrow> string) \<Rightarrow> string option \<Rightarrow> ValidationError list \<times> string" where
  "editComment_text sanitizer v =
     (let trimmed = trim (toString v)
      in (field_error ''text'' ''Comment cannot be empty'' (trimmed = []),
          sanitizer trimmed))"

section \<open>The Post handlers\<close>

definition getAllPosts :: "store \<Rightarrow> outcome \<times> store" where
  "getAllPosts s =
     (let (found, s1) = Post_find_sorted s
      in (Response 200 (PostsBody found), s1))"

definition getSpecificPost :: "string \<Rightarrow> store \<Rightarrow> outcome \<times> store" where
  "getSpecificPost postID s =
     (if \<not> ObjectId_isValid postID then (Response 400 (ErrorBody INVALID_ID), s)
      else
        (let (found, s1) = Post_findById postID s
         in case found of
              None \<Rightarrow> (Response 404 (ErrorBody DOES_NOT_EXIST), s1)
            | Some p \<Rightarrow> (Response 200 (PostBody p), s1)))"

text \<open>
  \<open>postNewPost\<close>: \<open>categories\<close> is the enumeration the Post model exports, \<open>now\<close> the
  clock and \<open>newId\<close> the identifier the new document is given.
\<close>

definition postNewPost ::
  "string list \<Rightarrow> int \<Rightarrow> oid \<Rightarrow> PostForm \<Rightarrow> store \<Rightarrow> outcome \<times> store" where
  "postNewPost categories now newId form s =
     (let (e1, title') = postNewPost_title (form_title form);
          (e2, category') = postNewPost_category categories (form_category form);
          (e3, text') = postNewPost_text (form_text form);
          isPublished' = postNewPost_isPublished (form_isPublished form);
          errors = e1 @ e2 @ e3
      in if errors \<noteq> [] then (Response 200 (ErrorsBody errors), s)
         else
           (let newPost =
                  new_Post newId ''65068c32be2fd5ade9800662'' title' now category' text'
                    isPublished';
                (saved, s1) = Post_save newPost s
            in (Response 200 (PostBody newPost), s1)))"

text \<open>
  \<open>editPost\<close> constructs a new Post from the stored one and the edits and hands that
  document to the update, so the update sets what the constructor gives
  \<open>commentCount\<close> along with the seven fields the handler names.
\<close>

definition editPost ::
  "string list \<Rightarrow> string \<Rightarrow> PostForm \<Rightarrow> store \<Rightarrow> outcome \<times> store" where
  "editPost categories postID form s =
     (let (e1, title') = editPost_title (form_title form);
          (e2, category') = editPost_category categories (form_category form);
          (e3, text') = editPost_text (form_text form);
          isPublished' = editPost_isPublished (form_isPublished form);
          errors = e1 @ e2 @ e3
      in if \<not> ObjectId_isValid postID then (Response 400 (ErrorBody INVALID_ID), s)
         else if errors \<noteq> [] then (Response 200 (ErrorsBody errors), s)
         else
           (let (existing, s1) = Post_findById postID s
            in case existing of
                 None \<Rightarrow> (Response 404 (ErrorBody DOES_NOT_EXIST), s1)
               | Some existingPost \<Rightarrow>
                   (let postWithEdits =
                          new_Post (post_id existingPost) (author existingPost)
                            (nullish title' (title existingPost))
                            (timestamp existingPost)
                            (case category' of
                               None \<Rightarrow> category existingPost
                             | Some c \<Rightarrow> Some c)
                            (nullish text' (post_text existingPost))
                            (nullish isPublished' (isPublished existingPost));
                        (editedPost, s2) =
                          Post_findByIdAndUpdate postID (set_document postWithEdits) s1
                    in (Response 200
                          (case editedPost of None \<Rightarrow> NullBody | Some p \<Rightarrow> PostBody p),
                        s2))))"

definition publishPost :: "string \<Rightarrow> string option \<Rightarrow> store \<Rightarrow> outcome \<times> store" where
  "publishPost postID publish s =
     (if \<not> ObjectId_isValid postID \<or> publish \<notin> set [Some ''true'', Some ''false'']
      then
        (let message = (if \<not> ObjectId_isValid postID then INVALID_ID else INVALID_QUERY)
         in (Response 400 (ErrorBody message), s))
      else
        (let newPublishedStatus = (publish = Some ''true'');
             (editedPost, s1) =
               Post_findByIdAndUpdate postID (\<lambda>p. p\<lparr>isPublished := newPublishedStatus\<rparr>) s
         in case editedPost of
              None \<Rightarrow> (Response 404 (ErrorBody DOES_NOT_EXIST), s1)
            | Some p \<Rightarrow> (Response 200 (PostBody p), s1)))"

definition deletePost :: "string \<Rightarrow> store \<Rightarrow> outcome \<times> store" where
  "deletePost postID s =
     (if \<not> ObjectId_isValid postID then (Response 400 (ErrorBody INVALID_ID), s)
      else
        (let (deletedPost, s1) = Post_findByIdAndDelete postID s
         in case deletedPost of
              None \<Rightarrow> (Response 404 (ErrorBody DOES_NOT_EXIST), s1)
            | Some p \<Rightarrow> (Response 200 (PostBody p), s1)))"

section \<open>The Comment handlers\<close>

text \<open>A route parameter that is absent or empty adds no condition to the filter.\<close>

definition truthy :: "string option \<Rightarrow> bool" where
  "truthy v = (case v of None \<Rightarrow> False | Some x \<Rightarrow> x \<noteq> [])"

definition getAllComments :: "string option \<Rightarrow> string option \<Rightarrow> store \<Rightarrow> outcome \<times> store" where
  "getAllComments postID readerID s =
     (let searchFilter =
            \<lparr>query_post = (if truthy postID then postID else None),
             query_commenter = (if truthy readerID then readerID else None)\<rparr>;
          (found, s1) = Comment_find_populate_sorted searchFilter s
      in case found of
           Inl e \<Rightarrow> (Threw e, s1)
         | Inr allComments \<Rightarrow> (Response 200 (CommentsBody allComments), s1))"

definition getSpecificComment :: "string \<Rightarrow> store \<Rightarrow> outcome \<times> store" where
  "getSpecificComment commentID s =
     (if \<not> ObjectId_isValid commentID then (Response 400 (ErrorBody INVALID_ID), s)
      else
        (let (found, s1) = Comment_findById commentID s
         in case found of
              None \<Rightarrow> (Response 404 (ErrorBody DOES_NOT_EXIST), s1)
            | Some c \<Rightarrow> (Response 200 (CommentBody c), s1)))"

text \<open>
  \<open>postNewComment\<close>: \<open>sanitizer\<close> is \<open>removeDangerousScriptTags\<close>, \<open>now\<close> the clock,
  \<open>newId\<close> the identifier of the new document and \<open>generatedId\<close> the identifier the
  constructor generates when the query carries no \<open>commenterID\<close>. The two writes are
  issued together and both are awaited; the handler then populates the saved comment,
  and only after that tests the two results.
\<close>

definition postNewComment ::
  "(string \<Rightarrow> string) \<Rightarrow> int \<Rightarrow> oid \<Rightarrow> oid \<Rightarrow>
     string \<Rightarrow> string option \<Rightarrow> string option \<Rightarrow> store \<Rightarrow> outcome \<times> store" where
  "postNewComment sanitizer now newId generatedId postID commenterID body_text s =
     (let (errors, text') = postNewComment_text sanitizer body_text
      in if errors \<noteq> [] then (Response 200 (ErrorsBody errors), s)
         else
           (case new_ObjectId generatedId commenterID of
              Inl e \<Rightarrow> (Threw e, s)
            | Inr commenter' \<Rightarrow>
                (case new_ObjectId generatedId (Some postID) of
                   Inl e \<Rightarrow> (Threw e, s)
                 | Inr post' \<Rightarrow>
                     (let comment =
                            \<lparr>comment_id = newId,
                             commenter = commenter',
                             post = post',
                             comment_timestamp = now,
                             comment_text = text',
                             replies = []\<rparr>;
                          (savedComment, s1) = Comment_save comment s;
                          (updatedPost, s2) =
                            Post_findByIdAndUpdate postID (inc_commentCount 1) s1
                      in case savedComment of
                           None \<Rightarrow> (Threw TypeError, s2)
                         | Some saved \<Rightarrow>
                             (let (populated, s3) = Comment_populate saved s2
                              in if updatedPost \<noteq> None
                                 then (Response 201 (PopulatedCommentBody populated), s3)
                                 else (Response 500 (MessageBody DATABASE_UPDATE_ERROR), s3))))))"

definition editComment ::
  "(string \<Rightarrow> string) \<Rightarrow> string \<Rightarrow> string option \<Rightarrow> store \<Rightarrow> outcome \<times> store" where
  "editComment sanitizer commentID body_text s =
     (let (errors, text') = editComment_text sanitizer body_text
      in if \<not> ObjectId_isValid commentID then (Response 400 (ErrorBody INVALID_ID), s)
         else if errors \<noteq> [] then (Response 200 (ErrorsBody errors), s)
         else
           (let (existing, s1) = Comment_findById commentID s
            in case existing of
                 None \<Rightarrow> (Response 404 (ErrorBody DOES_NOT_EXIST), s1)
               | Some existingComment \<Rightarrow>
                   (let commentWithEdits =
                          (\<lambda>stored. stored
                             \<lparr>comment_id := comment_id existingComment,
                              commenter := commenter existingComment,
                              post := post existingComment,
                              comment_timestamp := comment_timestamp existingComment,
                              comment_text := text',
                              replies := replies existingComment\<rparr>);
                        (editedComment, s2) =
                          Comment_findByIdAndUpdate commentID commentWithEdits s1
                    in (Response 200
                          (case editedComment of None \<Rightarrow> NullBody | Some c \<Rightarrow> CommentBody c),
                        s2))))"

text \<open>
  \<open>deleteComment\<close> does not read the result of the counter update: when the parent
  post is gone the update changes nothing and the answer is the same.
\<close>

definition deleteComment :: "string \<Rightarrow> store \<Rightarrow> outcome \<times> store" where
  "deleteComment commentID s =
     (if \<not> ObjectId_isValid commentID then (Response 400 (ErrorBody INVALID_ID), s)
      else
        (let (deletedComment, s1) = Comment_findByIdAndDelete commentID s
         in case deletedComment of
              None \<Rightarrow> (Response 404 (ErrorBody DOES_NOT_EXIST), s1)
            | Some d \<Rightarrow>
                (let (parent, s2) = Post_findByIdAndUpdate (post d) (inc_commentCount (- 1)) s1
                 in (Response 204 (CommentBody d), s2))))"

section \<open>Notions used to state the properties\<close>

text \<open>
  The error array the handler reads from the validation result: the errors of the chains,
  in the order the chains run.
\<close>

definition postNewPost_validationResult ::
  "string list \<Rightarrow> PostForm \<Rightarrow> ValidationError list" where
  "postNewPost_validationResult categories form =
     fst (postNewPost_title (form_title form)) @
     fst (postNewPost_category categories (form_category form)) @
     fst (postNewPost_text (form_text form))"

definition editPost_validationResult ::
  "string list \<Rightarrow> PostForm \<Rightarrow> ValidationError list" where
  "editPost_validationResult categories form =
     fst (editPost_title (form_title form)) @
     fst (editPost_category categories (form_category form)) @
     fst (editPost_text (form_text form))"

text \<open>
  The post an edit leaves in the store: every field the request provides replaces the
  stored one, by the value its chain leaves; \<open>title\<close>, \<open>category\<close>, \<open>text\<close> and
  \<open>isPublished\<close> otherwise keep the stored value; \<open>commentCount\<close> is the default.
\<close>

definition edited_post :: "PostForm \<Rightarrow> Post \<Rightarrow> Post" where
  "edited_post form P =
     P\<lparr>title := (case form_title form of None \<Rightarrow> title P | Some x \<Rightarrow> escape (trim x)),
       category :=
         (case form_category form of None \<Rightarrow> category P | Some x \<Rightarrow> Some (toLowerCase x)),
       post_text :=
         (case form_text form of
            None \<Rightarrow> post_text P
          | Some x \<Rightarrow> convertToArrayOfParagraphs (escape (trim x))),
       isPublished :=
         (case form_isPublished form of
            None \<Rightarrow> isPublished P
          | Some x \<Rightarrow> escape (toLowerCase (trim x)) = ''yes''),
       commentCount := Some 0\<rparr>"

text \<open>The comment \<open>postNewComment\<close> constructs once its identifiers are accepted.\<close>

definition commenter_of :: "oid \<Rightarrow> string option \<Rightarrow> oid" where
  "commenter_of generatedId commenterID =
     (case commenterID of None \<Rightarrow> generatedId | Some c \<Rightarrow> c)"

definition built_comment ::
  "(string \<Rightarrow> string) \<Rightarrow> int \<Rightarrow> oid \<Rightarrow> oid \<Rightarrow> string \<Rightarrow> string option \<Rightarrow>
     string option \<Rightarrow> oid Comment" where
  "built_comment sanitizer now newId generatedId postID commenterID body_text =
     \<lparr>comment_id = newId,
      commenter = commenter_of generatedId commenterID,
      post = postID,
      comment_timestamp = now,
      comment_text = sanitizer (escape (trim (toString body_text))),
      replies = []\<rparr>"

text \<open>The comment counter of the post stored under an identifier, if there is one.\<close>

definition stored_count :: "store \<Rightarrow> oid \<Rightarrow> int option" where
  "stored_count s i = map_option count_of (find (\<lambda>p. post_id p = i) (posts s))"



section \<open>An example store\<close>

text \<open>One author, one post and one comment on it, used to run the handlers.\<close>

definition example_author :: document where
  "example_author = [(''_id'', ''aaaaaaaaaaaaaaaaaaaaaaaa''), (''username'', ''bob'')]"

definition example_post :: Post where
  "example_post =
     \<lparr>post_id = ''bbbbbbbbbbbbbbbbbbbbbbbb'',
      author = ''65068c32be2fd5ade9800662'',
      title = ''Hello'',
      timestamp = 10,
      category = Some ''javascript'',
      post_text = [''First paragraph''],
      isPublished = False,
      commentCount = Some 1\<rparr>"

definition example_comment :: "oid Comment" where
  "example_comment =
     \<lparr>comment_id = ''cccccccccccccccccccccccc'',
      commenter = ''aaaaaaaaaaaaaaaaaaaaaaaa'',
      post = ''bbbbbbbbbbbbbbbbbbbbbbbb'',
      comment_timestamp = 20,
      comment_text = ''nice'',
      replies = []\<rparr>"

definition example_store :: store where
  "example_store =
     \<lparr>posts = [example_post],
      comments = [example_comment],
      authors = [example_author],
      oplog = []\<rparr>"

section \<open>Paragraph conversion\<close>

lemma split_newline_not_Nil: "split_newline xs \<noteq> []"
  by (induction xs) (auto split: list.splits)

lemma concat_split_newline: "concat (split_newline xs) = filter (\<lambda>c. c \<noteq> LF) xs"
  by (induction xs) (auto split: list.splits)

lemma join_newline_Cons: "join_newline ((x # p) # ps) = x # join_newline (p # ps)"
  by (cases ps) auto

lemma join_split_newline: "join_newline (split_newline xs) = xs"
proof (induction xs)
  case Nil
  show ?case by simp
next
  case (Cons x xs)
  obtain p ps where sp: "split_newline xs = p # ps"
    using split_newline_not_Nil[of xs] by (cases "split_newline xs") auto
  show ?case using Cons sp by (auto simp: join_newline_Cons)
qed

lemma spec_collapse_other:
  "c \<noteq> LF \<Longrightarrow> spec_collapse_newlines (c # cs) = c # spec_collapse_newlines cs"
  by (cases cs) auto

lemma spec_collapse_run:
  "spec_collapse_newlines (LF # cs) =
     LF # spec_collapse_newlines (dropWhile (\<lambda>x. x = LF) cs)"
  by (induction cs) (auto simp: spec_collapse_other)

text \<open>The regular-expression replacement of the source does what the spec's words say.\<close>

lemma collapse_newlines_spec: "collapse_newlines xs = spec_collapse_newlines xs"
  by (induction xs rule: collapse_newlines.induct)
    (auto simp: spec_collapse_other spec_collapse_run)

lemma no_adjacent_Cons:
  "no_adjacent_newlines (x # zs) =
     ((zs = [] \<or> \<not> (x = LF \<and> hd zs = LF)) \<and> no_adjacent_newlines zs)"
  by (cases zs) auto

lemma spec_collapse_hd:
  "spec_collapse_newlines (y # xs) \<noteq> [] \<and> hd (spec_collapse_newlines (y # xs)) = y"
  by (induction xs arbitrary: y) auto

lemma no_adjacent_spec_collapse: "no_adjacent_newlines (spec_collapse_newlines xs)"
proof (induction xs rule: spec_collapse_newlines.induct)
  case (1 x y xs)
  then show ?case using spec_collapse_hd[of y xs] by (auto simp: no_adjacent_Cons)
qed simp_all

lemma filter_spec_collapse:
  "filter (\<lambda>c. c \<noteq> LF) (spec_collapse_newlines xs) = filter (\<lambda>c. c \<noteq> LF) xs"
  by (induction xs rule: spec_collapse_newlines.induct) auto

text \<open>
  Splitting a string without adjacent newlines gives no empty paragraph strictly inside
  the sequence; when the string does not start with a newline the first one is not
  empty either, unless it is the last.
\<close>

lemma split_interior:
  "no_adjacent_newlines xs \<Longrightarrow>
     [] \<notin> set (butlast (tl (split_newline xs))) \<and>
     (xs = [] \<or> hd xs \<noteq> LF \<longrightarrow> [] \<notin> set (butlast (split_newline xs)))"
proof (induction xs)
  case Nil
  then show ?case by simp
next
  case (Cons x xs)
  have na: "no_adjacent_newlines xs" using Cons.prems by (cases xs) auto
  note ih = Cons.IH[OF na]
  obtain p ps where sp: "split_newline xs = p # ps"
    using split_newline_not_Nil[of xs] by (cases "split_newline xs") auto
  show ?case
  proof (cases "x = LF")
    case True
    then have "xs = [] \<or> hd xs \<noteq> LF" using Cons.prems by (cases xs) auto
    then show ?thesis using True ih by simp
  next
    case False
    then show ?thesis using ih sp by (auto dest: in_set_butlastD)
  qed
qed

text \<open>
  C7. The paragraph conversion removes every carriage return, collapses every run of
  newlines into one newline and splits at the newlines: the result is the split of the
  collapsed text, joining it with newlines gives the collapsed text back, in which no
  two newlines are adjacent; the paragraphs hold exactly the characters of the input
  other than carriage returns and newlines, in order; no paragraph holds a carriage
  return or a newline; no paragraph strictly inside the sequence is empty. The input
  \<^verbatim>\<open>"a\r\n\n\nb\nc"\<close> gives \<^verbatim>\<open>["a","b","c"]\<close>.
\<close>

theorem convertToArrayOfParagraphs_correct:
  "convertToArrayOfParagraphs s =
     split_newline (spec_collapse_newlines (filter (\<lambda>c. c \<noteq> CR) s)) \<and>
   join_newline (convertToArrayOfParagraphs s) =
     spec_collapse_newlines (filter (\<lambda>c. c \<noteq> CR) s) \<and>
   no_adjacent_newlines (join_newline (convertToArrayOfParagraphs s)) \<and>
   concat (convertToArrayOfParagraphs s) = filter (\<lambda>c. c \<noteq> CR \<and> c \<noteq> LF) s \<and>
   (\<forall>p \<in> set (convertToArrayOfParagraphs s). CR \<notin> set p \<and> LF \<notin> set p) \<and>
   [] \<notin> set (butlast (tl (convertToArrayOfParagraphs s))) \<and>
   convertToArrayOfParagraphs [CHR ''a'', CR, LF, LF, LF, CHR ''b'', LF, CHR ''c''] =
     [''a'', ''b'', ''c'']"
proof -
  let ?t = "spec_collapse_newlines (filter (\<lambda>c. c \<noteq> CR) s)"
  have eq: "convertToArrayOfParagraphs s = split_newline ?t"
    by (simp add: convertToArrayOfParagraphs_def remove_carriage_returns_def
        collapse_newlines_spec)
  have joined: "join_newline (convertToArrayOfParagraphs s) = ?t"
    by (simp add: eq join_split_newline)
  have na: "no_adjacent_newlines ?t" by (rule no_adjacent_spec_collapse)
  have cc: "concat (convertToArrayOfParagraphs s) = filter (\<lambda>c. c \<noteq> CR \<and> c \<noteq> LF) s"
    by (simp add: eq concat_split_newline filter_spec_collapse conj_commute)
  have parts: "\<forall>p \<in> set (convertToArrayOfParagraphs s). CR \<notin> set p \<and> LF \<notin> set p"
  proof
    fix p assume "p \<in> set (convertToArrayOfParagraphs s)"
    then have "set p \<subseteq> set (concat (convertToArrayOfParagraphs s))" by auto
    then show "CR \<notin> set p \<and> LF \<notin> set p" unfolding cc by auto
  qed
  have interior: "[] \<notin> set (butlast (tl (convertToArrayOfParagraphs s)))"
    using split_interior[OF na] by (simp add: eq)
  have ex: "convertToArrayOfParagraphs [CHR ''a'', CR, LF, LF, LF, CHR ''b'', LF, CHR ''c''] =
     [''a'', ''b'', ''c'']"
    by (simp add: convertToArrayOfParagraphs_def remove_carriage_returns_def)
  show ?thesis using eq joined na cc parts interior ex by simp
qed

theorem convertToArrayOfParagraphs_correct_witness:
  "convertToArrayOfParagraphs [LF, CHR ''x'', CR, LF, CR, LF, CHR ''y''] = ['''', ''x'', ''y''] \<and>
   join_newline ['''', ''x'', ''y''] = [LF, CHR ''x'', LF, CHR ''y''] \<and>
   concat (convertToArrayOfParagraphs [LF, CHR ''x'', CR, LF, CR, LF, CHR ''y'']) = ''xy'' \<and>
   [] \<notin> set (butlast (tl (convertToArrayOfParagraphs [LF, CHR ''x'', CR, LF, CR, LF, CHR ''y''])))"
  using convertToArrayOfParagraphs_correct [of "[LF, CHR ''x'', CR, LF, CR, LF, CHR ''y'']"]
  by simp

section \<open>Lookups after a write\<close>

lemmas sanitizer_defs =
  trim_def is_whitespace_def toString_def toLowerCase_def lower_char_def escape_def
  escape_char_def

lemmas example_defs =
  example_store_def example_post_def example_comment_def example_author_def

lemma example_ids:
  "ObjectId_isValid ''aaaaaaaaaaaaaaaaaaaaaaaa''"
  "ObjectId_isValid ''bbbbbbbbbbbbbbbbbbbbbbbb''"
  "ObjectId_isValid ''cccccccccccccccccccccccc''"
  "\<not> ObjectId_isValid ''bad''"
  by (simp_all add: ObjectId_isValid_def is_hex_digit_def)

lemma find_Some_key: "find (\<lambda>x. k x = i) xs = Some y \<Longrightarrow> k y = i"
  by (induction xs) (auto split: if_splits)

lemma find_update_first:
  assumes "\<And>x. k x = j \<Longrightarrow> k (f x) = j"
  shows "find (\<lambda>x. k x = i) (update_first (\<lambda>x. k x = j) f xs) =
           (if i = j then map_option f (find (\<lambda>x. k x = i) xs)
            else find (\<lambda>x. k x = i) xs)"
  using assms by (induction xs) auto

lemma update_first_absent: "find P xs = None \<Longrightarrow> update_first P f xs = xs"
  by (induction xs) (auto split: if_splits)

lemma find_delete_first_other:
  "i \<noteq> j \<Longrightarrow>
     find (\<lambda>x. k x = i) (delete_first (\<lambda>x. k x = j) xs) = find (\<lambda>x. k x = i) xs"
  by (induction xs) auto

lemma find_snoc:
  "find P (xs @ [y]) =
     (case find P xs of None \<Rightarrow> (if P y then Some y else None) | Some x \<Rightarrow> Some x)"
  by (induction xs) auto

lemma inc_commentCount_simps:
  "post_id (inc_commentCount d p) = post_id p"
  "count_of (inc_commentCount d p) = count_of p + d"
  by (simp_all add: inc_commentCount_def count_of_def)

lemma stored_count_frame:
  assumes "\<And>x. post_id x = j \<Longrightarrow> post_id (f x) = j"
    and "\<And>x. count_of (f x) = count_of x"
  shows "map_option count_of
           (find (\<lambda>p. post_id p = i) (update_first (\<lambda>p. post_id p = j) f xs)) =
         map_option count_of (find (\<lambda>p. post_id p = i) xs)"
  using assms by (simp add: find_update_first option.map_comp comp_def)

lemma stored_count_cong: "posts s' = posts s \<Longrightarrow> stored_count s' i = stored_count s i"
  by (simp add: stored_count_def)

section \<open>Malformed identifiers\<close>

text \<open>
  Seven of the handlers that take an identifier test it first and answer 400 with
  \<open>INVALID_ID\<close>, leaving the store and the log of operations as they were.
\<close>

lemma guarded_handlers_reject_malformed_id:
  assumes "\<not> ObjectId_isValid i"
  shows "getSpecificPost i s = (Response 400 (ErrorBody INVALID_ID), s)"
    and "editPost categories i form s = (Response 400 (ErrorBody INVALID_ID), s)"
    and "publishPost i publish s = (Response 400 (ErrorBody INVALID_ID), s)"
    and "deletePost i s = (Response 400 (ErrorBody INVALID_ID), s)"
    and "getSpecificComment i s = (Response 400 (ErrorBody INVALID_ID), s)"
    and "editComment sanitizer i body_text s = (Response 400 (ErrorBody INVALID_ID), s)"
    and "deleteComment i s = (Response 400 (ErrorBody INVALID_ID), s)"
  using assms
  by (simp_all add: getSpecificPost_def editPost_def publishPost_def deletePost_def
      getSpecificComment_def editComment_def deleteComment_def split: prod.splits)

text \<open>
  C1. The claim asks every handler that takes an identifier, \<open>postNewComment\<close> among
  them, to answer 400 with \<open>INVALID_ID\<close> on a malformed identifier. \<open>postNewComment\<close>
  has no such test: on a malformed post identifier it answers 200 with the error array
  when the text fails validation, and otherwise throws from the identifier's constructor
  without sending a response. It touches no document in either case.
\<close>

theorem postNewComment_malformed_id:
  "\<not> ObjectId_isValid postID \<Longrightarrow>
     postNewComment sanitizer now newId generatedId postID commenterID body_text s =
       ((if trim (toString body_text) = []
         then Response 200
                (ErrorsBody [\<lparr>path = ''text'', msg = ''Comment cannot be empty''\<rparr>])
         else Threw BSONError), s)"
  by (simp add: postNewComment_def postNewComment_text_def field_error_def new_ObjectId_def
      split: option.splits)

theorem postNewComment_malformed_id_witness:
  "\<not> ObjectId_isValid ''not-an-id'' \<and>
   postNewComment removeDangerousScriptTags 30 ''dddddddddddddddddddddddd''
       ''eeeeeeeeeeeeeeeeeeeeeeee'' ''not-an-id'' (Some ''aaaaaaaaaaaaaaaaaaaaaaaa'')
       (Some ''hello'') example_store =
     (Threw BSONError, example_store) \<and>
   postNewComment removeDangerousScriptTags 30 ''dddddddddddddddddddddddd''
       ''eeeeeeeeeeeeeeeeeeeeeeee'' ''not-an-id'' (Some ''aaaaaaaaaaaaaaaaaaaaaaaa'')
       (Some '' '') example_store =
     (Response 200 (ErrorsBody [\<lparr>path = ''text'', msg = ''Comment cannot be empty''\<rparr>]),
      example_store)"
proof -
  have bad: "\<not> ObjectId_isValid ''not-an-id''" by (simp add: ObjectId_isValid_def)
  show ?thesis
    using bad
      postNewComment_malformed_id [OF bad, of removeDangerousScriptTags 30
        "''dddddddddddddddddddddddd''" "''eeeeeeeeeeeeeeeeeeeeeeee''"
        "Some ''aaaaaaaaaaaaaaaaaaaaaaaa''" "Some ''hello''" example_store]
      postNewComment_malformed_id [OF bad, of removeDangerousScriptTags 30
        "''dddddddddddddddddddddddd''" "''eeeeeeeeeeeeeeeeeeeeeeee''"
        "Some ''aaaaaaaaaaaaaaaaaaaaaaaa''" "Some '' ''" example_store]
    by (simp add: sanitizer_defs)
qed

section \<open>Publishing a post\<close>

text \<open>
  C5. \<open>publishPost\<close> answers 400 with \<open>INVALID_ID\<close> when the identifier is malformed,
  whatever the flag; 400 with \<open>INVALID_QUERY\<close> when the identifier is well-formed and the
  flag is neither \<open>"true"\<close> nor \<open>"false"\<close>; 404 when both are valid and no post has the
  identifier; and otherwise sets \<open>isPublished\<close> of that post, and nothing else, and
  returns the post as updated.
\<close>

theorem publishPost_cases:
  "(\<not> ObjectId_isValid postID \<longrightarrow>
      publishPost postID publish s = (Response 400 (ErrorBody INVALID_ID), s)) \<and>
   (ObjectId_isValid postID \<and> publish \<noteq> Some ''true'' \<and> publish \<noteq> Some ''false'' \<longrightarrow>
      publishPost postID publish s = (Response 400 (ErrorBody INVALID_QUERY), s)) \<and>
   (ObjectId_isValid postID \<and> (publish = Some ''true'' \<or> publish = Some ''false'') \<and>
    find (\<lambda>p. post_id p = postID) (posts s) = None \<longrightarrow>
      publishPost postID publish s =
        (Response 404 (ErrorBody DOES_NOT_EXIST), record_op (Update Posts postID) s)) \<and>
   (ObjectId_isValid postID \<and> (publish = Some ''true'' \<or> publish = Some ''false'') \<and>
    find (\<lambda>p. post_id p = postID) (posts s) = Some P \<longrightarrow>
      fst (publishPost postID publish s) =
        Response 200 (PostBody (P\<lparr>isPublished := (publish = Some ''true'')\<rparr>)) \<and>
      find (\<lambda>p. post_id p = postID) (posts (snd (publishPost postID publish s))) =
        Some (P\<lparr>isPublished := (publish = Some ''true'')\<rparr>) \<and>
      (\<forall>j. j \<noteq> postID \<longrightarrow>
         find (\<lambda>p. post_id p = j) (posts (snd (publishPost postID publish s))) =
         find (\<lambda>p. post_id p = j) (posts s)) \<and>
      comments (snd (publishPost postID publish s)) = comments s \<and>
      authors (snd (publishPost postID publish s)) = authors s)"
proof (intro conjI impI)
  assume "\<not> ObjectId_isValid postID"
  then show "publishPost postID publish s = (Response 400 (ErrorBody INVALID_ID), s)"
    by (simp add: publishPost_def)
next
  assume "ObjectId_isValid postID \<and> publish \<noteq> Some ''true'' \<and> publish \<noteq> Some ''false''"
  then show "publishPost postID publish s = (Response 400 (ErrorBody INVALID_QUERY), s)"
    by (simp add: publishPost_def)
next
  assume a: "ObjectId_isValid postID \<and> (publish = Some ''true'' \<or> publish = Some ''false'') \<and>
    find (\<lambda>p. post_id p = postID) (posts s) = None"
  then have "update_first (\<lambda>p. post_id p = postID) f (posts s) = posts s" for f
    by (simp add: update_first_absent)
  with a show "publishPost postID publish s =
        (Response 404 (ErrorBody DOES_NOT_EXIST), record_op (Update Posts postID) s)"
    by (auto simp: publishPost_def Post_findByIdAndUpdate_def record_op_def)
next
  assume a: "ObjectId_isValid postID \<and> (publish = Some ''true'' \<or> publish = Some ''false'') \<and>
    find (\<lambda>p. post_id p = postID) (posts s) = Some P"
  let ?s' = "snd (publishPost postID publish s)"
  have s': "?s' = record_op (Update Posts postID)
      (s\<lparr>posts := update_first (\<lambda>p. post_id p = postID)
                    (\<lambda>p. p\<lparr>isPublished := (publish = Some ''true'')\<rparr>) (posts s)\<rparr>)"
    using a by (auto simp: publishPost_def Post_findByIdAndUpdate_def)
  show "fst (publishPost postID publish s) =
        Response 200 (PostBody (P\<lparr>isPublished := (publish = Some ''true'')\<rparr>))"
    using a by (auto simp: publishPost_def Post_findByIdAndUpdate_def)
  show "find (\<lambda>p. post_id p = postID) (posts ?s') =
        Some (P\<lparr>isPublished := (publish = Some ''true'')\<rparr>)"
    using a unfolding s' by (simp add: record_op_def find_update_first)
  show "\<forall>j. j \<noteq> postID \<longrightarrow>
         find (\<lambda>p. post_id p = j) (posts ?s') = find (\<lambda>p. post_id p = j) (posts s)"
    unfolding s' by (simp add: record_op_def find_update_first)
  show "comments ?s' = comments s" unfolding s' by (simp add: record_op_def)
  show "authors ?s' = authors s" unfolding s' by (simp add: record_op_def)
qed

text \<open>The four cases on the example store.\<close>

theorem publishPost_cases_witness:
  "publishPost ''bad'' (Some ''true'') example_store =
     (Response 400 (ErrorBody INVALID_ID), example_store) \<and>
   publishPost ''bbbbbbbbbbbbbbbbbbbbbbbb'' (Some ''maybe'') example_store =
     (Response 400 (ErrorBody INVALID_QUERY), example_store) \<and>
   publishPost ''aaaaaaaaaaaaaaaaaaaaaaaa'' (Some ''false'') example_store =
     (Response 404 (ErrorBody DOES_NOT_EXIST),
      record_op (Update Posts ''aaaaaaaaaaaaaaaaaaaaaaaa'') example_store) \<and>
   fst (publishPost ''bbbbbbbbbbbbbbbbbbbbbbbb'' (Some ''true'') example_store) =
     Response 200 (PostBody (example_post\<lparr>isPublished := True\<rparr>))"
  using publishPost_cases [of "''bad''" "Some ''true''" example_store example_post]
    publishPost_cases [of "''bbbbbbbbbbbbbbbbbbbbbbbb''" "Some ''maybe''" example_store example_post]
    publishPost_cases [of "''aaaaaaaaaaaaaaaaaaaaaaaa''" "Some ''false''" example_store example_post]
    publishPost_cases [of "''bbbbbbbbbbbbbbbbbbbbbbbb''" "Some ''true''" example_store example_post]
  by (simp add: example_ids example_defs)

section \<open>Validation failures\<close>

lemma postNewPost_invalid:
  "postNewPost_validationResult categories form \<noteq> [] \<Longrightarrow>
     postNewPost categories now newId form s =
       (Response 200 (ErrorsBody (postNewPost_validationResult categories form)), s)"
  by (auto simp: postNewPost_def postNewPost_validationResult_def Let_def split: prod.splits)

lemma editPost_invalid:
  "ObjectId_isValid postID \<Longrightarrow> editPost_validationResult categories form \<noteq> [] \<Longrightarrow>
     editPost categories postID form s =
       (Response 200 (ErrorsBody (editPost_validationResult categories form)), s)"
  by (auto simp: editPost_def editPost_validationResult_def Let_def split: prod.splits)

lemma postNewComment_invalid:
  "fst (postNewComment_text sanitizer body_text) \<noteq> [] \<Longrightarrow>
     postNewComment sanitizer now newId generatedId postID commenterID body_text s =
       (Response 200 (ErrorsBody (fst (postNewComment_text sanitizer body_text))), s)"
  by (auto simp: postNewComment_def split: prod.splits)

lemma editComment_invalid:
  "ObjectId_isValid commentID \<Longrightarrow> fst (editComment_text sanitizer body_text) \<noteq> [] \<Longrightarrow>
     editComment sanitizer commentID body_text s =
       (Response 200 (ErrorsBody (fst (editComment_text sanitizer body_text))), s)"
  by (auto simp: editComment_def split: prod.splits)

lemma comment_text_errors:
  "fst (postNewComment_text sanitizer v) =
     (if trim (toString v) = []
      then [\<lparr>path = ''text'', msg = ''Comment cannot be empty''\<rparr>] else [])"
  "fst (editComment_text sanitizer v) =
     (if trim (toString v) = []
      then [\<lparr>path = ''text'', msg = ''Comment cannot be empty''\<rparr>] else [])"
  by (simp_all add: postNewComment_text_def editComment_text_def field_error_def Let_def)

lemma empty_title_error:
  "trim (toString (form_title form)) = [] \<Longrightarrow>
     \<lparr>path = ''title'', msg = ''Title must not be empty''\<rparr>
       \<in> set (postNewPost_validationResult categories form)"
  by (simp add: postNewPost_validationResult_def postNewPost_title_def field_error_def)

text \<open>
  C6, as amended. When a validation rule fails, a create request (of a post or of a
  comment), and an edit request whose identifier is well-formed, is answered with status
  200 and the non-empty error array, and the store and the log of persistence operations
  are left exactly as they were. A post submitted with an empty title gets an error array
  with the entry "Title must not be empty". (An edit request with a malformed identifier
  is answered 400 before the validation result is read.)
\<close>

theorem validation_failure_persists_nothing:
  "(postNewPost_validationResult categories form \<noteq> [] \<longrightarrow>
      postNewPost categories now newId form s =
        (Response 200 (ErrorsBody (postNewPost_validationResult categories form)), s)) \<and>
   (fst (postNewComment_text sanitizer body_text) \<noteq> [] \<longrightarrow>
      postNewComment sanitizer now newId generatedId postID commenterID body_text s =
        (Response 200 (ErrorsBody (fst (postNewComment_text sanitizer body_text))), s)) \<and>
   (ObjectId_isValid postID \<and> editPost_validationResult categories form \<noteq> [] \<longrightarrow>
      editPost categories postID form s =
        (Response 200 (ErrorsBody (editPost_validationResult categories form)), s)) \<and>
   (ObjectId_isValid commentID \<and> fst (editComment_text sanitizer body_text) \<noteq> [] \<longrightarrow>
      editComment sanitizer commentID body_text s =
        (Response 200 (ErrorsBody (fst (editComment_text sanitizer body_text))), s)) \<and>
   (trim (toString (form_title form)) = [] \<longrightarrow>
      \<lparr>path = ''title'', msg = ''Title must not be empty''\<rparr>
        \<in> set (postNewPost_validationResult categories form))"
  by (simp add: postNewPost_invalid postNewComment_invalid editPost_invalid editComment_invalid
      empty_title_error)

text \<open>A post with a blank title and a comment edit without text, on the example store.\<close>

theorem validation_failure_persists_nothing_witness:
  "postNewPost [''javascript'', ''html''] 40 ''ffffffffffffffffffffffff''
       \<lparr>form_title = Some '' '', form_category = Some ''HTML'', form_text = Some ''a'',
         form_isPublished = Some ''yes''\<rparr> example_store =
     (Response 200 (ErrorsBody [\<lparr>path = ''title'', msg = ''Title must not be empty''\<rparr>]),
      example_store) \<and>
   editComment removeDangerousScriptTags ''cccccccccccccccccccccccc'' None example_store =
     (Response 200 (ErrorsBody [\<lparr>path = ''text'', msg = ''Comment cannot be empty''\<rparr>]),
      example_store)"
proof -
  have 1: "postNewPost_validationResult [''javascript'', ''html'']
       \<lparr>form_title = Some '' '', form_category = Some ''HTML'', form_text = Some ''a'',
         form_isPublished = Some ''yes''\<rparr> =
       [\<lparr>path = ''title'', msg = ''Title must not be empty''\<rparr>]"
    by (simp add: postNewPost_validationResult_def postNewPost_title_def
        postNewPost_category_def postNewPost_text_def field_error_def sanitizer_defs)
  have 2: "fst (editComment_text removeDangerousScriptTags None) =
       [\<lparr>path = ''text'', msg = ''Comment cannot be empty''\<rparr>]"
    by (simp add: editComment_text_def field_error_def sanitizer_defs)
  show ?thesis
    using validation_failure_persists_nothing
      [of "[''javascript'', ''html'']"
          "\<lparr>form_title = Some '' '', form_category = Some ''HTML'', form_text = Some ''a'',
            form_isPublished = Some ''yes''\<rparr>"
          40 "''ffffffffffffffffffffffff''" example_store removeDangerousScriptTags None
          "''eeeeeeeeeeeeeeeeeeeeeeee''" "''bbbbbbbbbbbbbbbbbbbbbbbb''" None
          "''cccccccccccccccccccccccc''"]
    by (simp add: 1 2 example_ids)
qed

text \<open>
  C6 as it was stated fails on an edit whose identifier is malformed: the text of
  this request fails validation, and the answer is 400 with \<open>INVALID_ID\<close>, not 200 with
  the error array.
\<close>

theorem edit_malformed_id_precedes_validation:
  "fst (editComment_text removeDangerousScriptTags (Some '''')) \<noteq> [] \<and>
   editComment removeDangerousScriptTags ''bad'' (Some '''') example_store =
     (Response 400 (ErrorBody INVALID_ID), example_store) \<and>
   editComment removeDangerousScriptTags ''bad'' (Some '''') example_store \<noteq>
     (Response 200 (ErrorsBody (fst (editComment_text removeDangerousScriptTags (Some '''')))),
      example_store)"
  by (simp add: editComment_def editComment_text_def field_error_def ObjectId_isValid_def
      sanitizer_defs)

section \<open>Editing a post\<close>

lemma editPost_chain_values:
  "snd (editPost_title v) = map_option (\<lambda>x. escape (trim x)) v"
  "snd (editPost_category categories v) = map_option toLowerCase v"
  "snd (editPost_text v) = map_option (\<lambda>x. convertToArrayOfParagraphs (escape (trim x))) v"
  by (simp_all add: editPost_title_def editPost_category_def editPost_text_def
      convertToArrayOfParagraphs_def Let_def split: option.splits)

lemma editPost_valid:
  assumes valid: "ObjectId_isValid postID"
    and found: "find (\<lambda>p. post_id p = postID) (posts s) = Some P"
    and ok: "editPost_validationResult categories form = []"
  shows "fst (editPost categories postID form s) = Response 200 (PostBody (edited_post form P))"
    and "find (\<lambda>p. post_id p = postID) (posts (snd (editPost categories postID form s))) =
           Some (edited_post form P)"
    and "j \<noteq> postID \<Longrightarrow>
           find (\<lambda>p. post_id p = j) (posts (snd (editPost categories postID form s))) =
           find (\<lambda>p. post_id p = j) (posts s)"
    and "comments (snd (editPost categories postID form s)) = comments s"
    and "authors (snd (editPost categories postID form s)) = authors s"
proof -
  define doc where "doc =
      new_Post (post_id P) (author P)
        (nullish (snd (editPost_title (form_title form))) (title P))
        (timestamp P)
        (case snd (editPost_category categories (form_category form)) of
           None \<Rightarrow> category P
         | Some c \<Rightarrow> Some c)
        (nullish (snd (editPost_text (form_text form))) (post_text P))
        (nullish (editPost_isPublished (form_isPublished form)) (isPublished P))"
  have key: "post_id P = postID" using found by (rule find_Some_key)
  have fP: "set_document doc P = edited_post form P"
    by (cases P)
      (simp add: doc_def new_Post_def set_document_def edited_post_def editPost_chain_values
        editPost_isPublished_def nullish_def split: option.splits)
  have keep: "post_id (set_document doc x) = postID" for x
    by (simp add: doc_def new_Post_def set_document_def key)
  have run: "editPost categories postID form s =
      (Response 200 (PostBody (set_document doc P)),
       record_op (Update Posts postID)
         ((record_op (FindById Posts postID) s)
            \<lparr>posts := update_first (\<lambda>p. post_id p = postID) (set_document doc) (posts s)\<rparr>))"
    using valid found ok
    by (simp add: editPost_def editPost_validationResult_def Post_findById_def
        Post_findByIdAndUpdate_def record_op_def doc_def case_prod_beta Let_def)
  show "fst (editPost categories postID form s) = Response 200 (PostBody (edited_post form P))"
    by (simp add: run fP)
  show "find (\<lambda>p. post_id p = postID) (posts (snd (editPost categories postID form s))) =
           Some (edited_post form P)"
    by (simp add: run record_op_def find_update_first keep found fP)
  show "j \<noteq> postID \<Longrightarrow>
           find (\<lambda>p. post_id p = j) (posts (snd (editPost categories postID form s))) =
           find (\<lambda>p. post_id p = j) (posts s)"
    by (simp add: run record_op_def find_update_first keep)
  show "comments (snd (editPost categories postID form s)) = comments s"
    by (simp add: run record_op_def)
  show "authors (snd (editPost categories postID form s)) = authors s"
    by (simp add: run record_op_def)
qed

text \<open>
  C4. The claim says that an edit whose provided fields pass validation replaces
  \<open>title\<close>, \<open>category\<close>, \<open>text\<close> and \<open>isPublished\<close> by the provided values, falls
  back to the stored value of an omitted field, and preserves the identifier, the author,
  the timestamp and \<open>commentCount\<close>. \<open>editPost\<close> does all of that but the last: it
  hands the update a newly constructed post, to which it passes no \<open>commentCount\<close>, so
  the post it stores and returns has the \<open>commentCount\<close> of a new post, 0, whatever
  the stored counter was.
\<close>

theorem editPost_resets_commentCount:
  assumes "ObjectId_isValid postID"
    and "find (\<lambda>p. post_id p = postID) (posts s) = Some P"
    and "editPost_validationResult categories form = []"
  shows "\<exists>P'. fst (editPost categories postID form s) = Response 200 (PostBody P') \<and>
           find (\<lambda>p. post_id p = postID) (posts (snd (editPost categories postID form s))) =
             Some P' \<and>
           title P' =
             (case form_title form of None \<Rightarrow> title P | Some x \<Rightarrow> escape (trim x)) \<and>
           category P' =
             (case form_category form of
                None \<Rightarrow> category P
              | Some x \<Rightarrow> Some (toLowerCase x)) \<and>
           post_text P' =
             (case form_text form of
                None \<Rightarrow> post_text P
              | Some x \<Rightarrow> convertToArrayOfParagraphs (escape (trim x))) \<and>
           isPublished P' =
             (case form_isPublished form of
                None \<Rightarrow> isPublished P
              | Some x \<Rightarrow> escape (toLowerCase (trim x)) = ''yes'') \<and>
           post_id P' = post_id P \<and>
           author P' = author P \<and>
           timestamp P' = timestamp P \<and>
           commentCount P' = Some 0"
  using editPost_valid(1,2)[OF assms]
  by (intro exI[of _ "edited_post form P"]) (simp add: edited_post_def)

text \<open>
  Editing only the title of the example post, whose counter is 1: the title is replaced,
  the other fields of the request keep their stored values, and the counter is 0.
\<close>

theorem editPost_resets_commentCount_witness:
  "commentCount example_post = Some 1 \<and>
   (\<exists>P'. fst (editPost [''javascript'', ''html''] ''bbbbbbbbbbbbbbbbbbbbbbbb''
              \<lparr>form_title = Some ''New'', form_category = None, form_text = None,
                form_isPublished = None\<rparr> example_store) = Response 200 (PostBody P') \<and>
     find (\<lambda>p. post_id p = ''bbbbbbbbbbbbbbbbbbbbbbbb'')
       (posts (snd (editPost [''javascript'', ''html''] ''bbbbbbbbbbbbbbbbbbbbbbbb''
              \<lparr>form_title = Some ''New'', form_category = None, form_text = None,
                form_isPublished = None\<rparr> example_store))) = Some P' \<and>
     title P' = ''New'' \<and>
     category P' = Some ''javascript'' \<and>
     post_text P' = [''First paragraph''] \<and>
     isPublished P' = False \<and>
     post_id P' = ''bbbbbbbbbbbbbbbbbbbbbbbb'' \<and>
     author P' = ''65068c32be2fd5ade9800662'' \<and>
     timestamp P' = 10 \<and>
     commentCount P' = Some 0 \<and>
     commentCount P' \<noteq> commentCount example_post)"
proof -
  have ok: "editPost_validationResult [''javascript'', ''html'']
      \<lparr>form_title = Some ''New'', form_category = None, form_text = None,
        form_isPublished = None\<rparr> = []"
    by (simp add: editPost_validationResult_def editPost_title_def editPost_category_def
        editPost_text_def field_error_def sanitizer_defs)
  have found: "find (\<lambda>p. post_id p = ''bbbbbbbbbbbbbbbbbbbbbbbb'') (posts example_store) =
      Some example_post"
    by (simp add: example_defs)
  show ?thesis
    using editPost_resets_commentCount [OF example_ids(2) found ok]
    by (auto simp: example_post_def sanitizer_defs)
qed

section \<open>The publication flag of a post\<close>

lemma postNewPost_valid:
  assumes "postNewPost_validationResult categories form = []"
  shows "postNewPost categories now newId form s =
     (Response 200 (PostBody
        \<lparr>post_id = newId, author = ''65068c32be2fd5ade9800662'',
         title = escape (trim (toString (form_title form))),
         timestamp = now,
         category = map_option toLowerCase (form_category form),
         post_text = convertToArrayOfParagraphs (escape (trim (toString (form_text form)))),
         isPublished =
           (escape (toLowerCase (trim (toString (form_isPublished form)))) = ''yes''),
         commentCount = Some 0\<rparr>),
      record_op (Insert Posts newId)
        (s\<lparr>posts := posts s @
           [\<lparr>post_id = newId, author = ''65068c32be2fd5ade9800662'',
             title = escape (trim (toString (form_title form))),
             timestamp = now,
             category = map_option toLowerCase (form_category form),
             post_text =
               convertToArrayOfParagraphs (escape (trim (toString (form_text form)))),
             isPublished =
               (escape (toLowerCase (trim (toString (form_isPublished form)))) = ''yes''),
             commentCount = Some 0\<rparr>]\<rparr>))"
  using assms
  by (simp add: postNewPost_def postNewPost_validationResult_def postNewPost_title_def
      postNewPost_category_def postNewPost_text_def postNewPost_isPublished_def Post_save_def
      new_Post_def Let_def)

text \<open>
  C8. In \<open>postNewPost\<close> and in \<open>editPost\<close> a provided \<open>isPublished\<close> value becomes
  true exactly when its trimmed, lower-cased, escaped form is the string \<open>"yes"\<close>, both
  in the value the chain leaves and in the post the handler stores and returns; the
  string \<open>"true"\<close> becomes false.
\<close>

theorem isPublished_selection:
  "postNewPost_isPublished (Some v) = (escape (toLowerCase (trim v)) = ''yes'') \<and>
   editPost_isPublished (Some v) = Some (escape (toLowerCase (trim v)) = ''yes'') \<and>
   (postNewPost_validationResult categories form = [] \<and> form_isPublished form = Some v \<longrightarrow>
      (\<exists>P. fst (postNewPost categories now newId form s) = Response 200 (PostBody P) \<and>
           posts (snd (postNewPost categories now newId form s)) = posts s @ [P] \<and>
           isPublished P = (escape (toLowerCase (trim v)) = ''yes''))) \<and>
   (ObjectId_isValid postID \<and> find (\<lambda>p. post_id p = postID) (posts s) = Some Q \<and>
    editPost_validationResult categories form = [] \<and> form_isPublished form = Some v \<longrightarrow>
      (\<exists>P. fst (editPost categories postID form s) = Response 200 (PostBody P) \<and>
           find (\<lambda>p. post_id p = postID) (posts (snd (editPost categories postID form s))) =
             Some P \<and>
           isPublished P = (escape (toLowerCase (trim v)) = ''yes''))) \<and>
   \<not> postNewPost_isPublished (Some ''true'') \<and>
   editPost_isPublished (Some ''true'') = Some False"
proof (intro conjI impI)
  show "postNewPost_isPublished (Some v) = (escape (toLowerCase (trim v)) = ''yes'')"
    by (simp add: postNewPost_isPublished_def toString_def)
  show "editPost_isPublished (Some v) = Some (escape (toLowerCase (trim v)) = ''yes'')"
    by (simp add: editPost_isPublished_def)
  show "\<not> postNewPost_isPublished (Some ''true'')"
    by (simp add: postNewPost_isPublished_def sanitizer_defs)
  show "editPost_isPublished (Some ''true'') = Some False"
    by (simp add: editPost_isPublished_def sanitizer_defs)
next
  assume a: "postNewPost_validationResult categories form = [] \<and> form_isPublished form = Some v"
  then show "\<exists>P. fst (postNewPost categories now newId form s) = Response 200 (PostBody P) \<and>
           posts (snd (postNewPost categories now newId form s)) = posts s @ [P] \<and>
           isPublished P = (escape (toLowerCase (trim v)) = ''yes'')"
    by (simp add: postNewPost_valid record_op_def toString_def)
next
  assume a: "ObjectId_isValid postID \<and> find (\<lambda>p. post_id p = postID) (posts s) = Some Q \<and>
    editPost_validationResult categories form = [] \<and> form_isPublished form = Some v"
  then have "fst (editPost categories postID form s) =
      Response 200 (PostBody (edited_post form Q))"
    and "find (\<lambda>p. post_id p = postID) (posts (snd (editPost categories postID form s))) =
           Some (edited_post form Q)"
    by (simp_all add: editPost_valid)
  moreover have "isPublished (edited_post form Q) = (escape (toLowerCase (trim v)) = ''yes'')"
    using a by (simp add: edited_post_def)
  ultimately show "\<exists>P. fst (editPost categories postID form s) = Response 200 (PostBody P) \<and>
           find (\<lambda>p. post_id p = postID) (posts (snd (editPost categories postID form s))) =
             Some P \<and>
           isPublished P = (escape (toLowerCase (trim v)) = ''yes'')"
    by blast
qed

text \<open>
  A post created with \<open>" Yes "\<close> is published; the example post edited with \<open>"true"\<close>
  is not.
\<close>

theorem isPublished_selection_witness:
  "(\<exists>P. fst (postNewPost [''javascript'', ''html''] 40 ''ffffffffffffffffffffffff''
              \<lparr>form_title = Some ''T'', form_category = Some ''HTML'', form_text = Some ''a'',
                form_isPublished = Some '' Yes ''\<rparr> example_store) =
            Response 200 (PostBody P) \<and> isPublished P) \<and>
   (\<exists>P. fst (editPost [''javascript'', ''html''] ''bbbbbbbbbbbbbbbbbbbbbbbb''
              \<lparr>form_title = None, form_category = None, form_text = None,
                form_isPublished = Some ''true''\<rparr> example_store) =
            Response 200 (PostBody P) \<and> \<not> isPublished P)"
proof -
  have ok1: "postNewPost_validationResult [''javascript'', ''html'']
      \<lparr>form_title = Some ''T'', form_category = Some ''HTML'', form_text = Some ''a'',
        form_isPublished = Some '' Yes ''\<rparr> = []"
    by (simp add: postNewPost_validationResult_def postNewPost_title_def
        postNewPost_category_def postNewPost_text_def field_error_def sanitizer_defs)
  have ok2: "editPost_validationResult [''javascript'', ''html'']
      \<lparr>form_title = None, form_category = None, form_text = None,
        form_isPublished = Some ''true''\<rparr> = []"
    by (simp add: editPost_validationResult_def editPost_title_def editPost_category_def
        editPost_text_def)
  have found: "find (\<lambda>p. post_id p = ''bbbbbbbbbbbbbbbbbbbbbbbb'') (posts example_store) =
      Some example_post"
    by (simp add: example_defs)
  have yes: "escape (toLowerCase (trim '' Yes '')) = ''yes''"
    by (simp add: sanitizer_defs)
  have no: "escape (toLowerCase (trim ''true'')) \<noteq> ''yes''"
    by (simp add: sanitizer_defs)
  show ?thesis
    using isPublished_selection
        [of "'' Yes ''" "[''javascript'', ''html'']"
          "\<lparr>form_title = Some ''T'', form_category = Some ''HTML'', form_text = Some ''a'',
            form_isPublished = Some '' Yes ''\<rparr>"
          40 "''ffffffffffffffffffffffff''" example_store "''bad''" example_post]
      isPublished_selection
        [of "''true''" "[''javascript'', ''html'']"
          "\<lparr>form_title = None, form_category = None, form_text = None,
            form_isPublished = Some ''true''\<rparr>"
          40 "''ffffffffffffffffffffffff''" example_store "''bbbbbbbbbbbbbbbbbbbbbbbb''"
          example_post]
    by (auto simp: ok1 ok2 found yes no example_ids)
qed

section \<open>Creating a comment\<close>

lemma postNewComment_valid:
  assumes text_ok: "trim (toString body_text) \<noteq> []"
    and post_ok: "ObjectId_isValid postID"
    and commenter_ok: "commenterID = None \<or> (\<exists>c. commenterID = Some c \<and> ObjectId_isValid c)"
  shows "postNewComment sanitizer now newId generatedId postID commenterID body_text s =
     (if find (\<lambda>p. post_id p = postID) (posts s) \<noteq> None
      then Response 201 (PopulatedCommentBody (populate_commenter s
             (built_comment sanitizer now newId generatedId postID commenterID body_text)))
      else Response 500 (MessageBody DATABASE_UPDATE_ERROR),
      s\<lparr>comments := comments s @
              [built_comment sanitizer now newId generatedId postID commenterID body_text],
        posts := update_first (\<lambda>p. post_id p = postID) (inc_commentCount 1) (posts s),
        oplog := oplog s @ [Insert Comments newId, Update Posts postID, Find Authors]\<rparr>)"
proof -
  have c: "new_ObjectId generatedId commenterID = Inr (commenter_of generatedId commenterID)"
    using commenter_ok by (auto simp: new_ObjectId_def commenter_of_def)
  have p: "new_ObjectId generatedId (Some postID) = Inr postID"
    using post_ok by (simp add: new_ObjectId_def)
  show ?thesis
    using text_ok
    by (simp add: postNewComment_def postNewComment_text_def field_error_def c p
        built_comment_def Comment_save_def Post_findByIdAndUpdate_def Comment_populate_def
        record_op_def populate_commenter_def Let_def)
qed


lemma hello_ok: "trim (toString (Some ''hello'')) \<noteq> []"
  by (simp add: sanitizer_defs)

lemma example_commenter_ok:
  "Some ''aaaaaaaaaaaaaaaaaaaaaaaa'' = None \<or>
   (\<exists>c. Some ''aaaaaaaaaaaaaaaaaaaaaaaa'' = Some c \<and> ObjectId_isValid c)"
  by (simp add: example_ids)


section \<open>The text of a comment\<close>

lemma editComment_valid:
  assumes valid: "ObjectId_isValid commentID"
    and found: "find (\<lambda>c. comment_id c = commentID) (comments s) = Some c"
    and ok: "trim (toString body_text) \<noteq> []"
  shows "fst (editComment sanitizer commentID body_text s) =
           Response 200
             (CommentBody (c\<lparr>comment_text := sanitizer (trim (toString body_text))\<rparr>))"
    and "find (\<lambda>c. comment_id c = commentID)
           (comments (snd (editComment sanitizer commentID body_text s))) =
           Some (c\<lparr>comment_text := sanitizer (trim (toString body_text))\<rparr>)"
    and "posts (snd (editComment sanitizer commentID body_text s)) = posts s"
proof -
  define f where "f = (\<lambda>stored :: oid Comment. stored
      \<lparr>comment_id := comment_id c, commenter := commenter c, post := post c,
       comment_timestamp := comment_timestamp c,
       comment_text := sanitizer (trim (toString body_text)),
       replies := replies c\<rparr>)"
  have key: "comment_id c = commentID" using found by (rule find_Some_key)
  have fc: "f c = c\<lparr>comment_text := sanitizer (trim (toString body_text))\<rparr>"
    by (simp add: f_def)
  have keep: "comment_id (f x) = commentID" for x by (simp add: f_def key)
  have run: "editComment sanitizer commentID body_text s =
      (Response 200 (CommentBody (f c)),
       record_op (Update Comments commentID)
         ((record_op (FindById Comments commentID) s)
            \<lparr>comments := update_first (\<lambda>c. comment_id c = commentID) f (comments s)\<rparr>))"
    using valid found ok
    by (simp add: editComment_def editComment_text_def field_error_def Comment_findById_def
        Comment_findByIdAndUpdate_def record_op_def f_def Let_def)
  show "fst (editComment sanitizer commentID body_text s) =
           Response 200
             (CommentBody (c\<lparr>comment_text := sanitizer (trim (toString body_text))\<rparr>))"
    by (simp add: run fc)
  show "find (\<lambda>c. comment_id c = commentID)
           (comments (snd (editComment sanitizer commentID body_text s))) =
           Some (c\<lparr>comment_text := sanitizer (trim (toString body_text))\<rparr>)"
    by (simp add: run record_op_def find_update_first keep found fc)
  show "posts (snd (editComment sanitizer commentID body_text s)) = posts s"
    by (simp add: run record_op_def)
qed

lemma escape_no_angle: "CHR ''<'' \<notin> set (escape x) \<and> CHR ''>'' \<notin> set (escape x)"
  by (induction x) (auto simp: escape_def escape_char_def)

text \<open>
  C10. The chain of \<open>editComment\<close> trims the text, requires it not to be empty and
  strips script tags, and does not escape it; the chain of \<open>postNewComment\<close> escapes
  the same text between the two. So the comment \<open>postNewComment\<close> stores holds the
  sanitizer's image of the escaped trimmed text, in which no \<open><\<close> is left before the
  sanitizer runs, and the comment \<open>editComment\<close> stores holds the sanitizer's image of
  the trimmed text itself: with the script-tag sanitizer, the text \<open>a < b & c\<close> is stored
  as it is by an edit and as \<^verbatim>\<open>a &lt; b &amp; c\<close> by a creation.
\<close>

theorem comment_text_escaping_asymmetry:
  "snd (postNewComment_text sanitizer (Some t)) = sanitizer (escape (trim t)) \<and>
   snd (editComment_text sanitizer (Some t)) = sanitizer (trim t) \<and>
   (fst (postNewComment_text sanitizer (Some t)) = [] \<longleftrightarrow> trim t \<noteq> []) \<and>
   (fst (editComment_text sanitizer (Some t)) = [] \<longleftrightarrow> trim t \<noteq> []) \<and>
   (trim t \<noteq> [] \<and> ObjectId_isValid postID \<and>
    (commenterID = None \<or> (\<exists>c. commenterID = Some c \<and> ObjectId_isValid c)) \<longrightarrow>
      (\<exists>c. comments (snd (postNewComment sanitizer now newId generatedId postID commenterID
                            (Some t) s)) = comments s @ [c] \<and>
           comment_text c = sanitizer (escape (trim t)))) \<and>
   (trim t \<noteq> [] \<and> ObjectId_isValid commentID \<and>
    find (\<lambda>c. comment_id c = commentID) (comments s) = Some old \<longrightarrow>
      (\<exists>c. find (\<lambda>c. comment_id c = commentID)
             (comments (snd (editComment sanitizer commentID (Some t) s))) = Some c \<and>
           comment_text c = sanitizer (trim t))) \<and>
   CHR ''<'' \<notin> set (escape (trim t)) \<and>
   snd (editComment_text removeDangerousScriptTags (Some ''a < b & c'')) = ''a < b & c'' \<and>
   snd (postNewComment_text removeDangerousScriptTags (Some ''a < b & c'')) =
     ''a &lt; b &amp; c''"
proof (intro conjI impI)
  show "snd (postNewComment_text sanitizer (Some t)) = sanitizer (escape (trim t))"
    by (simp add: postNewComment_text_def toString_def Let_def)
  show "snd (editComment_text sanitizer (Some t)) = sanitizer (trim t)"
    by (simp add: editComment_text_def toString_def Let_def)
  show "fst (postNewComment_text sanitizer (Some t)) = [] \<longleftrightarrow> trim t \<noteq> []"
    by (simp add: comment_text_errors toString_def)
  show "fst (editComment_text sanitizer (Some t)) = [] \<longleftrightarrow> trim t \<noteq> []"
    by (simp add: comment_text_errors toString_def)
  show "CHR ''<'' \<notin> set (escape (trim t))" by (simp add: escape_no_angle)
  show "snd (editComment_text removeDangerousScriptTags (Some ''a < b & c'')) = ''a < b & c''"
    by (simp add: editComment_text_def sanitizer_defs)
  show "snd (postNewComment_text removeDangerousScriptTags (Some ''a < b & c'')) =
     ''a &lt; b &amp; c''"
    by (simp add: postNewComment_text_def sanitizer_defs)
next
  assume a: "trim t \<noteq> [] \<and> ObjectId_isValid postID \<and>
    (commenterID = None \<or> (\<exists>c. commenterID = Some c \<and> ObjectId_isValid c))"
  then have t: "trim (toString (Some t)) \<noteq> []" and v: "ObjectId_isValid postID"
    and c: "commenterID = None \<or> (\<exists>c. commenterID = Some c \<and> ObjectId_isValid c)"
    by (simp_all add: toString_def)
  show "\<exists>c. comments (snd (postNewComment sanitizer now newId generatedId postID commenterID
                            (Some t) s)) = comments s @ [c] \<and>
           comment_text c = sanitizer (escape (trim t))"
    unfolding postNewComment_valid[OF t v c]
    by (simp add: built_comment_def toString_def)
next
  assume a: "trim t \<noteq> [] \<and> ObjectId_isValid commentID \<and>
    find (\<lambda>c. comment_id c = commentID) (comments s) = Some old"
  then have t: "trim (toString (Some t)) \<noteq> []" by (simp add: toString_def)
  show "\<exists>c. find (\<lambda>c. comment_id c = commentID)
             (comments (snd (editComment sanitizer commentID (Some t) s))) = Some c \<and>
           comment_text c = sanitizer (trim t)"
    using editComment_valid(2)[of commentID s old "Some t" sanitizer] a t
    by (simp add: toString_def)
qed

text \<open>The same text sent as a new comment and as an edit of the example comment.\<close>

theorem comment_text_escaping_asymmetry_witness:
  "(\<exists>c. comments (snd (postNewComment removeDangerousScriptTags 30
            ''dddddddddddddddddddddddd'' ''eeeeeeeeeeeeeeeeeeeeeeee''
            ''bbbbbbbbbbbbbbbbbbbbbbbb'' None (Some ''a < b & c'') example_store)) =
            comments example_store @ [c] \<and>
         comment_text c = ''a &lt; b &amp; c'') \<and>
   (\<exists>c. find (\<lambda>c. comment_id c = ''cccccccccccccccccccccccc'')
           (comments (snd (editComment removeDangerousScriptTags ''cccccccccccccccccccccccc''
              (Some ''a < b & c'') example_store))) = Some c \<and>
         comment_text c = ''a < b & c'')"
proof -
  have t: "trim ''a < b & c'' = ''a < b & c''" by (simp add: sanitizer_defs)
  have e: "escape ''a < b & c'' = ''a &lt; b &amp; c''" by (simp add: sanitizer_defs)
  have found: "find (\<lambda>c. comment_id c = ''cccccccccccccccccccccccc'') (comments example_store) =
      Some example_comment"
    by (simp add: example_defs)
  show ?thesis
    using comment_text_escaping_asymmetry
        [of removeDangerousScriptTags "''a < b & c''" "''bbbbbbbbbbbbbbbbbbbbbbbb''" None 30
          "''dddddddddddddddddddddddd''" "''eeeeeeeeeeeeeeeeeeeeeeee''" example_store
          "''cccccccccccccccccccccccc''" example_comment]
    by (simp add: t e found example_ids)
qed

section \<open>The comment counter\<close>

lemma reads_keep_posts:
  "posts (snd (getAllPosts s)) = posts s"
  "posts (snd (getSpecificPost postID s)) = posts s"
  "posts (snd (getAllComments postID' readerID s)) = posts s"
  "posts (snd (getSpecificComment commentID s)) = posts s"
  "posts (snd (editComment sanitizer commentID body_text s)) = posts s"
  by (simp_all add: getAllPosts_def getSpecificPost_def getAllComments_def
      getSpecificComment_def editComment_def record_op_def Post_find_sorted_def
      Post_findById_def Comment_find_populate_sorted_def Comment_findById_def
      Comment_findByIdAndUpdate_def Let_def split: prod.splits option.splits sum.splits)

lemma publishPost_count:
  "stored_count (snd (publishPost postID publish s)) i = stored_count s i"
proof (cases "\<not> ObjectId_isValid postID \<or> publish \<notin> set [Some ''true'', Some ''false'']")
  case True
  then show ?thesis by (simp add: publishPost_def Let_def)
next
  case False
  then have "posts (snd (publishPost postID publish s)) =
      update_first (\<lambda>p. post_id p = postID)
        (\<lambda>p. p\<lparr>isPublished := (publish = Some ''true'')\<rparr>) (posts s)"
    by (auto simp: publishPost_def Post_findByIdAndUpdate_def record_op_def Let_def
        split: option.splits)
  then show ?thesis
    unfolding stored_count_def by (simp add: stored_count_frame count_of_def)
qed

lemma editPost_count_other:
  assumes "i \<noteq> postID"
  shows "stored_count (snd (editPost categories postID form s)) i = stored_count s i"
proof (cases "ObjectId_isValid postID \<and> editPost_validationResult categories form = []")
  case False
  then show ?thesis
    by (auto simp: editPost_def editPost_validationResult_def Let_def case_prod_beta)
next
  case True
  show ?thesis
  proof (cases "find (\<lambda>p. post_id p = postID) (posts s)")
    case None
    then have "posts (snd (editPost categories postID form s)) = posts s"
      using True
      by (simp add: editPost_def editPost_validationResult_def Post_findById_def record_op_def
          Let_def case_prod_beta)
    then show ?thesis by (rule stored_count_cong)
  next
    case (Some P)
    show ?thesis
      using editPost_valid(3)[of postID s P categories form i] True Some assms
      by (simp add: stored_count_def)
  qed
qed

lemma editPost_count_reset:
  assumes "ObjectId_isValid postID"
    and "find (\<lambda>p. post_id p = postID) (posts s) = Some P"
    and "editPost_validationResult categories form = []"
  shows "stored_count (snd (editPost categories postID form s)) postID = Some 0"
  using editPost_valid(2)[OF assms]
  by (simp add: stored_count_def edited_post_def count_of_def)

lemma postNewPost_count:
  "i \<noteq> newId \<Longrightarrow>
     stored_count (snd (postNewPost categories now newId form s)) i = stored_count s i"
proof (cases "postNewPost_validationResult categories form = []")
  case True
  assume "i \<noteq> newId"
  then show ?thesis
    by (simp add: postNewPost_valid[OF True] stored_count_def record_op_def find_snoc
        split: option.splits)
next
  case False
  then show ?thesis by (simp add: postNewPost_invalid)
qed

lemma deletePost_count:
  "i \<noteq> postID \<Longrightarrow> stored_count (snd (deletePost postID s)) i = stored_count s i"
  by (simp add: deletePost_def Post_findByIdAndDelete_def record_op_def stored_count_def
      find_delete_first_other Let_def split: option.splits)

lemma deleteComment_found:
  assumes "ObjectId_isValid commentID"
    and "find (\<lambda>c. comment_id c = commentID) (comments s) = Some c"
  shows "deleteComment commentID s =
     (Response 204 (CommentBody c),
      record_op (Update Posts (post c))
        ((record_op (Delete Comments commentID)
            (s\<lparr>comments := delete_first (\<lambda>c. comment_id c = commentID) (comments s)\<rparr>))
         \<lparr>posts := update_first (\<lambda>p. post_id p = post c) (inc_commentCount (- 1)) (posts s)\<rparr>))"
  using assms
  by (simp add: deleteComment_def Comment_findByIdAndDelete_def Post_findByIdAndUpdate_def
      record_op_def Let_def)

lemma postNewComment_count:
  assumes t: "trim (toString body_text) \<noteq> []" and v: "ObjectId_isValid postID"
    and c: "commenterID = None \<or> (\<exists>c. commenterID = Some c \<and> ObjectId_isValid c)"
    and f: "find (\<lambda>p. post_id p = postID) (posts s) = Some P"
  shows "fst (postNewComment sanitizer now newId generatedId postID commenterID body_text s) =
           Response 201 (PopulatedCommentBody (populate_commenter s
             (built_comment sanitizer now newId generatedId postID commenterID body_text)))"
    and "comments
           (snd (postNewComment sanitizer now newId generatedId postID commenterID
                   body_text s)) =
           comments s @
             [built_comment sanitizer now newId generatedId postID commenterID body_text]"
    and "stored_count
           (snd (postNewComment sanitizer now newId generatedId postID commenterID
                   body_text s)) i =
           (if i = postID then Some (count_of P + 1) else stored_count s i)"
proof -
  note run = postNewComment_valid[OF t v c, of sanitizer now newId generatedId s]
  show "fst (postNewComment sanitizer now newId generatedId postID commenterID body_text s) =
           Response 201 (PopulatedCommentBody (populate_commenter s
             (built_comment sanitizer now newId generatedId postID commenterID body_text)))"
    unfolding run using f by simp
  show "comments
           (snd (postNewComment sanitizer now newId generatedId postID commenterID
                   body_text s)) =
           comments s @
             [built_comment sanitizer now newId generatedId postID commenterID body_text]"
    unfolding run by simp
  show "stored_count
           (snd (postNewComment sanitizer now newId generatedId postID commenterID
                   body_text s)) i =
           (if i = postID then Some (count_of P + 1) else stored_count s i)"
    unfolding run using f
    by (simp add: stored_count_def find_update_first inc_commentCount_simps)
qed

lemma deleteComment_count:
  assumes v: "ObjectId_isValid commentID"
    and c: "find (\<lambda>c. comment_id c = commentID) (comments s) = Some c"
    and f: "find (\<lambda>p. post_id p = post c) (posts s) = Some P"
  shows "stored_count (snd (deleteComment commentID s)) i =
           (if i = post c then Some (count_of P - 1) else stored_count s i)"
  unfolding deleteComment_found[OF v c] using f
  by (simp add: stored_count_def record_op_def find_update_first inc_commentCount_simps)

text \<open>
  C2. The claim says that creating a comment for a post \<open>P\<close> raises the counter of
  \<open>P\<close> by exactly one when the insert and the counter update both succeed, that
  deleting the comment lowers it by exactly one, and that no other operation changes a
  counter. The first two parts hold: for \<open>P\<close> stored under \<open>postID\<close>, the new comment
  is answered 201, is stored with \<open>P\<close> as its post and raises the counter of \<open>P\<close> by
  one; deleting a stored comment whose post is \<open>P\<close> lowers the counter of \<open>P\<close> by
  one; both leave the counter of every other post as it was. The reads, \<open>publishPost\<close>
  and \<open>editComment\<close> leave every counter as it was, \<open>postNewPost\<close> every counter but
  that of the new identifier, and \<open>deletePost\<close> every counter but that of the deleted
  identifier. The last part fails for \<open>editPost\<close>: it leaves the counter of every
  other post as it was, and sets the counter of the post it edits to 0.
\<close>

theorem commentCount_maintenance:
  "(trim (toString body_text) \<noteq> [] \<and> ObjectId_isValid postID \<and>
    (commenterID = None \<or> (\<exists>c. commenterID = Some c \<and> ObjectId_isValid c)) \<and>
    find (\<lambda>p. post_id p = postID) (posts s) = Some P \<longrightarrow>
      (\<exists>pc. fst (postNewComment sanitizer now newId generatedId postID commenterID
                    body_text s) = Response 201 (PopulatedCommentBody pc) \<and>
            post pc = postID) \<and>
      (\<exists>c. comments (snd (postNewComment sanitizer now newId generatedId postID
                             commenterID body_text s)) = comments s @ [c] \<and>
           post c = postID) \<and>
      stored_count
        (snd (postNewComment sanitizer now newId generatedId postID commenterID
                body_text s)) postID = Some (count_of P + 1) \<and>
      (j \<noteq> postID \<longrightarrow>
         stored_count
           (snd (postNewComment sanitizer now newId generatedId postID commenterID
                   body_text s)) j = stored_count s j)) \<and>
   (ObjectId_isValid commentID \<and>
    find (\<lambda>c. comment_id c = commentID) (comments s) = Some c \<and>
    find (\<lambda>p. post_id p = post c) (posts s) = Some P \<longrightarrow>
      fst (deleteComment commentID s) = Response 204 (CommentBody c) \<and>
      stored_count (snd (deleteComment commentID s)) (post c) = Some (count_of P - 1) \<and>
      (j \<noteq> post c \<longrightarrow>
         stored_count (snd (deleteComment commentID s)) j = stored_count s j)) \<and>
   stored_count (snd (getAllPosts s)) i = stored_count s i \<and>
   stored_count (snd (getSpecificPost postID s)) i = stored_count s i \<and>
   (i \<noteq> postID \<longrightarrow>
      stored_count (snd (editPost categories postID form s)) i = stored_count s i) \<and>
   (ObjectId_isValid postID \<and> find (\<lambda>p. post_id p = postID) (posts s) = Some P \<and>
    editPost_validationResult categories form = [] \<longrightarrow>
      stored_count (snd (editPost categories postID form s)) postID = Some 0) \<and>
   stored_count (snd (publishPost postID publish s)) i = stored_count s i \<and>
   stored_count (snd (getAllComments postID' readerID s)) i = stored_count s i \<and>
   stored_count (snd (getSpecificComment commentID s)) i = stored_count s i \<and>
   stored_count (snd (editComment sanitizer commentID body_text s)) i = stored_count s i \<and>
   (i \<noteq> newId \<longrightarrow>
      stored_count (snd (postNewPost categories now newId form s)) i = stored_count s i) \<and>
   (i \<noteq> postID \<longrightarrow> stored_count (snd (deletePost postID s)) i = stored_count s i)"
proof (intro conjI impI)
  assume a: "trim (toString body_text) \<noteq> [] \<and> ObjectId_isValid postID \<and>
    (commenterID = None \<or> (\<exists>c. commenterID = Some c \<and> ObjectId_isValid c)) \<and>
    find (\<lambda>p. post_id p = postID) (posts s) = Some P"
  then have t: "trim (toString body_text) \<noteq> []" and v: "ObjectId_isValid postID"
    and c: "commenterID = None \<or> (\<exists>c. commenterID = Some c \<and> ObjectId_isValid c)"
    and f: "find (\<lambda>p. post_id p = postID) (posts s) = Some P"
    by simp_all
  note create = postNewComment_count[OF t v c f, of sanitizer now newId generatedId]
  show "\<exists>pc. fst (postNewComment sanitizer now newId generatedId postID commenterID
                    body_text s) = Response 201 (PopulatedCommentBody pc) \<and>
            post pc = postID"
    by (simp add: create(1) populate_commenter_def built_comment_def)
  show "\<exists>c. comments (snd (postNewComment sanitizer now newId generatedId postID
                             commenterID body_text s)) = comments s @ [c] \<and>
           post c = postID"
    by (simp add: create(2) built_comment_def)
  show "stored_count
        (snd (postNewComment sanitizer now newId generatedId postID commenterID
                body_text s)) postID = Some (count_of P + 1)"
    by (simp add: create(3))
  show "stored_count
           (snd (postNewComment sanitizer now newId generatedId postID commenterID
                   body_text s)) j = stored_count s j" if "j \<noteq> postID"
    using that by (simp add: create(3))
next
  assume a: "ObjectId_isValid commentID \<and>
    find (\<lambda>c. comment_id c = commentID) (comments s) = Some c \<and>
    find (\<lambda>p. post_id p = post c) (posts s) = Some P"
  then have v: "ObjectId_isValid commentID"
    and c: "find (\<lambda>c. comment_id c = commentID) (comments s) = Some c"
    and f: "find (\<lambda>p. post_id p = post c) (posts s) = Some P"
    by simp_all
  show "fst (deleteComment commentID s) = Response 204 (CommentBody c)"
    by (simp add: deleteComment_found[OF v c])
  show "stored_count (snd (deleteComment commentID s)) (post c) = Some (count_of P - 1)"
    by (simp add: deleteComment_count[OF v c f])
  show "stored_count (snd (deleteComment commentID s)) j = stored_count s j" if "j \<noteq> post c"
    using that by (simp add: deleteComment_count[OF v c f])
next
  assume "ObjectId_isValid postID \<and> find (\<lambda>p. post_id p = postID) (posts s) = Some P \<and>
    editPost_validationResult categories form = []"
  then show "stored_count (snd (editPost categories postID form s)) postID = Some 0"
    by (simp add: editPost_count_reset)
next
  show "stored_count (snd (getAllPosts s)) i = stored_count s i"
    by (simp add: stored_count_def reads_keep_posts)
  show "stored_count (snd (getSpecificPost postID s)) i = stored_count s i"
    by (simp add: stored_count_def reads_keep_posts)
  show "stored_count (snd (editPost categories postID form s)) i = stored_count s i"
    if "i \<noteq> postID"
    using that by (rule editPost_count_other)
  show "stored_count (snd (publishPost postID publish s)) i = stored_count s i"
    by (rule publishPost_count)
  show "stored_count (snd (getAllComments postID' readerID s)) i = stored_count s i"
    by (simp add: stored_count_def reads_keep_posts)
  show "stored_count (snd (getSpecificComment commentID s)) i = stored_count s i"
    by (simp add: stored_count_def reads_keep_posts)
  show "stored_count (snd (editComment sanitizer commentID body_text s)) i = stored_count s i"
    by (simp add: stored_count_def reads_keep_posts)
  show "stored_count (snd (postNewPost categories now newId form s)) i = stored_count s i"
    if "i \<noteq> newId"
    using that by (rule postNewPost_count)
  show "stored_count (snd (deletePost postID s)) i = stored_count s i" if "i \<noteq> postID"
    using that by (rule deletePost_count)
qed

text \<open>
  On the example store, whose post counts one comment: a new comment makes it two,
  deleting the example comment makes it zero, publishing the post leaves it at one, and
  editing only the title of the post makes it zero.
\<close>

theorem commentCount_maintenance_witness:
  "stored_count example_store ''bbbbbbbbbbbbbbbbbbbbbbbb'' = Some 1 \<and>
   stored_count
     (snd (postNewComment removeDangerousScriptTags 30 ''dddddddddddddddddddddddd''
             ''eeeeeeeeeeeeeeeeeeeeeeee'' ''bbbbbbbbbbbbbbbbbbbbbbbb''
             (Some ''aaaaaaaaaaaaaaaaaaaaaaaa'') (Some ''hello'') example_store))
     ''bbbbbbbbbbbbbbbbbbbbbbbb'' = Some 2 \<and>
   stored_count (snd (deleteComment ''cccccccccccccccccccccccc'' example_store))
     ''bbbbbbbbbbbbbbbbbbbbbbbb'' = Some 0 \<and>
   stored_count (snd (publishPost ''bbbbbbbbbbbbbbbbbbbbbbbb'' (Some ''true'') example_store))
     ''bbbbbbbbbbbbbbbbbbbbbbbb'' = Some 1 \<and>
   stored_count
     (snd (editPost [''javascript'', ''html''] ''bbbbbbbbbbbbbbbbbbbbbbbb''
             \<lparr>form_title = Some ''New'', form_category = None, form_text = None,
               form_isPublished = None\<rparr> example_store))
     ''bbbbbbbbbbbbbbbbbbbbbbbb'' = Some 0"
proof -
  have p: "find (\<lambda>p. post_id p = ''bbbbbbbbbbbbbbbbbbbbbbbb'') (posts example_store) =
      Some example_post"
    by (simp add: example_defs)
  have c: "find (\<lambda>c. comment_id c = ''cccccccccccccccccccccccc'') (comments example_store) =
      Some example_comment"
    by (simp add: example_defs)
  have pc: "post example_comment = ''bbbbbbbbbbbbbbbbbbbbbbbb''"
    by (simp add: example_comment_def)
  have n: "count_of example_post = 1" by (simp add: count_of_def example_post_def)
  have s: "stored_count example_store ''bbbbbbbbbbbbbbbbbbbbbbbb'' = Some 1"
    by (simp add: stored_count_def p n)
  have ok: "editPost_validationResult [''javascript'', ''html'']
      \<lparr>form_title = Some ''New'', form_category = None, form_text = None,
        form_isPublished = None\<rparr> = []"
    by (simp add: editPost_validationResult_def editPost_title_def editPost_category_def
        editPost_text_def field_error_def sanitizer_defs)
  show ?thesis
    using commentCount_maintenance
        [where body_text = "Some ''hello''" and postID = "''bbbbbbbbbbbbbbbbbbbbbbbb''"
          and commenterID = "Some ''aaaaaaaaaaaaaaaaaaaaaaaa''" and s = example_store
          and P = example_post and sanitizer = removeDangerousScriptTags and now = 30
          and newId = "''dddddddddddddddddddddddd''"
          and generatedId = "''eeeeeeeeeeeeeeeeeeeeeeee''"
          and commentID = "''cccccccccccccccccccccccc''" and c = example_comment
          and i = "''bbbbbbbbbbbbbbbbbbbbbbbb''" and publish = "Some ''true''"
          and categories = "[''javascript'', ''html'']"
          and form = "\<lparr>form_title = Some ''New'', form_category = None, form_text = None,
               form_isPublished = None\<rparr>"]
    by (simp add: hello_ok example_ids p c pc n s ok)
qed

section \<open>Listing comments\<close>











end
